theory Spec2Isabelle
  imports Complex_Main "HOL-Library.Word"
begin

section \<open>JavaScript strings\<close>

text \<open>
  A JavaScript string is a sequence of 16-bit code units. String literals of the
  source are written with \<open>js\<close>, which maps each ASCII character to its code unit.
\<close>

type_synonym jschar = "16 word"
type_synonym jsstring = "jschar list"

definition js :: "string \<Rightarrow> jsstring" where
  "js s = map of_char s"

text \<open>
  The errors a call of the script can end with. \<open>Error msg\<close> is
  \<^verbatim>\<open>new Error(msg)\<close>; \<open>TypeError\<close>, \<open>URIError\<close> and \<open>SyntaxError\<close> are the
  built-in exceptions; \<open>Rejected reason\<close> is the rejection of a promise by the
  network layer (\<^verbatim>\<open>fetch\<close>, \<^verbatim>\<open>runReport\<close>) or a failure of the file system.
\<close>

datatype js_error =
    Error jsstring
  | TypeError
  | URIError
  | SyntaxError
  | Rejected jsstring

subsection \<open>\<^verbatim>\<open>String.prototype.split\<close> with a one-character separator\<close>

fun split_on :: "'a \<Rightarrow> 'a list \<Rightarrow> 'a list list" where
  "split_on sep [] = [[]]"
| "split_on sep (c # cs) =
     (case split_on sep cs of
        [] \<Rightarrow> (if c = sep then [[], []] else [[c]])
      | p # ps \<Rightarrow> (if c = sep then [] # p # ps else (c # p) # ps))"

subsection \<open>\<^verbatim>\<open>String.prototype.trim\<close>\<close>

text \<open>The code units of ECMAScript's WhiteSpace and LineTerminator productions.\<close>

definition is_white_space :: "jschar \<Rightarrow> bool" where
  "is_white_space c \<longleftrightarrow>
     c \<in> {0x0009, 0x000A, 0x000B, 0x000C, 0x000D, 0x0020, 0x00A0, 0x1680,
          0x2000, 0x2001, 0x2002, 0x2003, 0x2004, 0x2005, 0x2006, 0x2007,
          0x2008, 0x2009, 0x200A, 0x2028, 0x2029, 0x202F, 0x205F, 0x3000, 0xFEFF}"

definition trim :: "jsstring \<Rightarrow> jsstring" where
  "trim s = rev (dropWhile is_white_space (rev (dropWhile is_white_space s)))"

subsection \<open>\<^verbatim>\<open>decodeURIComponent\<close>\<close>

definition hex_val :: "jschar \<Rightarrow> nat option" where
  "hex_val c =
     (let n = unat c in
      if 0x30 \<le> n \<and> n \<le> 0x39 then Some (n - 0x30)
      else if 0x41 \<le> n \<and> n \<le> 0x46 then Some (n - 0x41 + 10)
      else if 0x61 \<le> n \<and> n \<le> 0x66 then Some (n - 0x61 + 10)
      else None)"

text \<open>ParseHexOctet: the byte written by the two hexadecimal digits at the head.\<close>

fun hex_octet :: "jsstring \<Rightarrow> nat option" where
  "hex_octet (h1 # h2 # _) =
     (case hex_val h1 of
        None \<Rightarrow> None
      | Some a \<Rightarrow> (case hex_val h2 of None \<Rightarrow> None | Some b \<Rightarrow> Some (16 * a + b)))"
| "hex_octet _ = None"

text \<open>The number of leading 1 bits of a byte (5 stands for five or more).\<close>

definition leading_ones :: "nat \<Rightarrow> nat" where
  "leading_ones b =
     (if b < 0x80 then 0 else if b < 0xC0 then 1 else if b < 0xE0 then 2
      else if b < 0xF0 then 3 else if b < 0xF8 then 4 else 5)"

text \<open>
  The \<open>j\<close> escapes \<^verbatim>\<open>%XX\<close> that must follow the first byte of a multi-byte
  sequence; \<open>None\<close> where the source throws (the string ends, a code unit is
  not \<^verbatim>\<open>%\<close>, or the digits are not hexadecimal).
\<close>

fun continuation_octets :: "nat \<Rightarrow> jsstring \<Rightarrow> nat list option" where
  "continuation_octets 0 s = Some []"
| "continuation_octets (Suc j) [] = None"
| "continuation_octets (Suc j) (c # cs) =
     (if c \<noteq> 0x25 then None
      else (case hex_octet cs of
              None \<Rightarrow> None
            | Some b \<Rightarrow> (case continuation_octets j (drop 2 cs) of
                          None \<Rightarrow> None
                        | Some bs \<Rightarrow> Some (b # bs))))"

definition is_continuation :: "nat \<Rightarrow> bool" where
  "is_continuation b \<longleftrightarrow> 0x80 \<le> b \<and> b < 0xC0"

text \<open>
  The code point of a multi-byte UTF-8 sequence; \<open>None\<close> when the bytes are
  not a valid encoding (a byte that is no continuation byte, an overlong form,
  a surrogate, a value above U+10FFFF).
\<close>

fun utf8_code_point :: "nat list \<Rightarrow> nat option" where
  "utf8_code_point [b0, b1] =
     (let v = (b0 - 0xC0) * 64 + (b1 - 0x80) in
      if is_continuation b1 \<and> 0x80 \<le> v then Some v else None)"
| "utf8_code_point [b0, b1, b2] =
     (let v = (b0 - 0xE0) * 4096 + (b1 - 0x80) * 64 + (b2 - 0x80) in
      if is_continuation b1 \<and> is_continuation b2 \<and> 0x800 \<le> v
         \<and> \<not> (0xD800 \<le> v \<and> v \<le> 0xDFFF)
      then Some v else None)"
| "utf8_code_point [b0, b1, b2, b3] =
     (let v = (b0 - 0xF0) * 262144 + (b1 - 0x80) * 4096 + (b2 - 0x80) * 64 + (b3 - 0x80) in
      if is_continuation b1 \<and> is_continuation b2 \<and> is_continuation b3
         \<and> 0x10000 \<le> v \<and> v \<le> 0x10FFFF
      then Some v else None)"
| "utf8_code_point _ = None"

text \<open>UTF16EncodeCodePoint.\<close>

definition utf16_encode :: "nat \<Rightarrow> jsstring" where
  "utf16_encode v =
     (if v < 0x10000 then [of_nat v]
      else [of_nat (0xD800 + (v - 0x10000) div 1024), of_nat (0xDC00 + (v - 0x10000) mod 1024)])"

text \<open>
  ECMAScript's Decode with an empty set of preserved escapes. \<open>None\<close> is the
  URIError the source throws on a malformed escape sequence.
\<close>

fun decodeURIComponent :: "jsstring \<Rightarrow> jsstring option" where
  "decodeURIComponent [] = Some []"
| "decodeURIComponent (c # cs) =
     (if c \<noteq> 0x25 then map_option ((#) c) (decodeURIComponent cs)
      else (case hex_octet cs of
              None \<Rightarrow> None
            | Some b \<Rightarrow>
                (let n = leading_ones b in
                 if n = 0 then map_option ((#) (of_nat b)) (decodeURIComponent (drop 2 cs))
                 else if n = 1 \<or> 4 < n then None
                 else (case continuation_octets (n - 1) (drop 2 cs) of
                         None \<Rightarrow> None
                       | Some bs \<Rightarrow>
                           (case utf8_code_point (b # bs) of
                              None \<Rightarrow> None
                            | Some v \<Rightarrow>
                                map_option ((@) (utf16_encode v))
                                  (decodeURIComponent (drop (3 * (n - 1)) (drop 2 cs))))))))"

section \<open>The paginator: \<^verbatim>\<open>getNextPage\<close>\<close>

definition rel_next :: jsstring where
  \<open>rel_next = js ''rel="next"''\<close>

definition page_info_eq :: jsstring where
  "page_info_eq = js ''page_info=''"

text \<open>
  The prefix test of the regular expression: \<open>strip_prefix p s\<close> is the rest of
  \<open>s\<close> after \<open>p\<close>, when \<open>s\<close> starts with \<open>p\<close>.
\<close>

fun strip_prefix :: "'a list \<Rightarrow> 'a list \<Rightarrow> 'a list option" where
  "strip_prefix [] s = Some s"
| "strip_prefix (p # ps) [] = None"
| "strip_prefix (p # ps) (c # cs) = (if p = c then strip_prefix ps cs else None)"

text \<open>The character class \<^verbatim>\<open>[^&>]\<close>.\<close>

definition not_amp_gt :: "jschar \<Rightarrow> bool" where
  "not_amp_gt c \<longleftrightarrow> c \<noteq> 0x26 \<and> c \<noteq> 0x3E"

text \<open>
  \<^verbatim>\<open>urlPart.match(/page_info=([^&>]+)/)\<close>: the first capture group of the
  leftmost match, or \<open>None\<close> for \<^verbatim>\<open>null\<close>. At each start position the
  literal must be followed by at least one code unit of the class; the group is
  greedy.
\<close>

fun match_page_info :: "jsstring \<Rightarrow> jsstring option" where
  "match_page_info [] = None"
| "match_page_info (c # cs) =
     (case strip_prefix page_info_eq (c # cs) of
        None \<Rightarrow> match_page_info cs
      | Some rest \<Rightarrow>
          (if takeWhile not_amp_gt rest \<noteq> [] then Some (takeWhile not_amp_gt rest)
           else match_page_info cs))"

text \<open>
  The destructuring \<^verbatim>\<open>[urlPart, relPart] = part.split(';').map(s => s.trim())\<close>:
  the first two pieces; \<open>None\<close> is \<^verbatim>\<open>undefined\<close>.
\<close>

definition url_rel :: "jsstring \<Rightarrow> jsstring option \<times> jsstring option" where
  "url_rel part =
     (case map trim (split_on 0x3B part) of
        [] \<Rightarrow> (None, None)
      | [u] \<Rightarrow> (Some u, None)
      | u # r # _ \<Rightarrow> (Some u, Some r))"

text \<open>What the body of the loop returns for a part whose relation is \<^verbatim>\<open>rel="next"\<close>.\<close>

definition cursor_of :: "jsstring option \<Rightarrow> js_error + jsstring option" where
  "cursor_of urlPart =
     (case urlPart of
        None \<Rightarrow> Inl TypeError
      | Some u \<Rightarrow>
          (case match_page_info u of
             None \<Rightarrow> Inr None
           | Some tok \<Rightarrow>
               (case decodeURIComponent tok of
                  None \<Rightarrow> Inl URIError
                | Some s \<Rightarrow> Inr (Some s))))"

definition is_next :: "jsstring \<Rightarrow> bool" where
  "is_next part \<longleftrightarrow> snd (url_rel part) = Some rel_next"

text \<open>The \<^verbatim>\<open>for (const part of parts)\<close> loop.\<close>

fun next_in_parts :: "jsstring list \<Rightarrow> js_error + jsstring option" where
  "next_in_parts [] = Inr None"
| "next_in_parts (part # parts) =
     (if is_next part then cursor_of (fst (url_rel part))
      else next_in_parts parts)"

text \<open>
  \<^verbatim>\<open>getNextPage(linkHeader)\<close>. The header is \<open>None\<close> (\<^verbatim>\<open>null\<close>) or a string;
  \<^verbatim>\<open>!linkHeader\<close> holds for \<^verbatim>\<open>null\<close> and for the empty string.
\<close>

definition link_parts :: "jsstring \<Rightarrow> jsstring list" where
  "link_parts h = map trim (split_on 0x2C h)"

definition getNextPage :: "jsstring option \<Rightarrow> js_error + jsstring option" where
  "getNextPage linkHeader =
     (case linkHeader of
        None \<Rightarrow> Inr None
      | Some h \<Rightarrow> (if h = [] then Inr None else next_in_parts (link_parts h)))"

section \<open>JavaScript numbers\<close>

text \<open>
  A Number is an IEEE 754 binary64 value. \<open>Fin x\<close> is the finite double whose
  exact value is the rational \<open>x\<close>. The two zeros are identified: the script
  never divides by a Number nor compares with \<^verbatim>\<open>Object.is\<close>, and
  \<^verbatim>\<open>JSON.stringify\<close> prints both as \<^verbatim>\<open>0\<close>.
\<close>

datatype jsnum = NaN | PosInf | NegInf | Fin rat

text \<open>The number of binary digits of a natural number.\<close>

fun bitlen :: "nat \<Rightarrow> nat" where
  "bitlen n = (if n = 0 then 0 else Suc (bitlen (n div 2)))"

declare bitlen.simps [simp del]

text \<open>The integer \<open>k\<close> with \<open>2 ^ k \<le> x < 2 ^ (k + 1)\<close>, for \<open>0 < x\<close>.\<close>

definition ilog2 :: "rat \<Rightarrow> int" where
  "ilog2 x = (if 1 \<le> x then int (bitlen (nat \<lfloor>x\<rfloor>)) - 1
              else - int (bitlen (nat (\<lceil>1 / x\<rceil> - 1))))"

definition pow2 :: "int \<Rightarrow> rat" where
  "pow2 e = (if 0 \<le> e then 2 ^ nat e else 1 / 2 ^ nat (- e))"

definition round_half_even :: "rat \<Rightarrow> int" where
  "round_half_even x =
     (let f = \<lfloor>x\<rfloor>; r = x - of_int f in
      if r < 1 / 2 then f else if 1 / 2 < r then f + 1
      else if even f then f else f + 1)"

text \<open>
  The Number value for a rational: round to nearest, ties to even, with a 53-bit
  significand, the least exponent \<open>-1074\<close> (subnormal numbers), and overflow to
  infinity from \<open>2 ^ 1024\<close> on.
\<close>

definition round64 :: "rat \<Rightarrow> jsnum" where
  "round64 x =
     (if x = 0 then Fin 0
      else
        (let e = max (ilog2 \<bar>x\<bar> - 52) (- 1074);
             y = of_int (round_half_even (\<bar>x\<bar> / pow2 e)) * pow2 e
         in if pow2 1024 \<le> y then (if 0 < x then PosInf else NegInf)
            else Fin (sgn x * y)))"

definition neg :: "jsnum \<Rightarrow> jsnum" where
  "neg v = (case v of NaN \<Rightarrow> NaN | PosInf \<Rightarrow> NegInf | NegInf \<Rightarrow> PosInf | Fin x \<Rightarrow> Fin (- x))"

text \<open>The operators \<^verbatim>\<open>+\<close> and \<^verbatim>\<open>*\<close> on Numbers.\<close>

fun fadd :: "jsnum \<Rightarrow> jsnum \<Rightarrow> jsnum" where
  "fadd (Fin x) (Fin y) = round64 (x + y)"
| "fadd NaN _ = NaN"
| "fadd _ NaN = NaN"
| "fadd PosInf NegInf = NaN"
| "fadd NegInf PosInf = NaN"
| "fadd PosInf _ = PosInf"
| "fadd _ PosInf = PosInf"
| "fadd NegInf _ = NegInf"
| "fadd _ NegInf = NegInf"

fun fmul :: "jsnum \<Rightarrow> jsnum \<Rightarrow> jsnum" where
  "fmul (Fin x) (Fin y) = round64 (x * y)"
| "fmul NaN _ = NaN"
| "fmul _ NaN = NaN"
| "fmul PosInf (Fin y) = (if y = 0 then NaN else if 0 < y then PosInf else NegInf)"
| "fmul NegInf (Fin y) = (if y = 0 then NaN else if 0 < y then NegInf else PosInf)"
| "fmul (Fin x) PosInf = (if x = 0 then NaN else if 0 < x then PosInf else NegInf)"
| "fmul (Fin x) NegInf = (if x = 0 then NaN else if 0 < x then NegInf else PosInf)"
| "fmul PosInf PosInf = PosInf"
| "fmul NegInf NegInf = PosInf"
| "fmul PosInf NegInf = NegInf"
| "fmul NegInf PosInf = NegInf"

text \<open>
  \<^verbatim>\<open>Math.round\<close>: the nearest integer, the larger one on a tie. For a double
  that integer is a double again.
\<close>

definition math_round :: "jsnum \<Rightarrow> jsnum" where
  "math_round v = (case v of Fin x \<Rightarrow> Fin (of_int \<lfloor>x + 1 / 2\<rfloor>) | _ \<Rightarrow> v)"

subsection \<open>Decimal digits\<close>

definition is_digit :: "jschar \<Rightarrow> bool" where
  "is_digit c \<longleftrightarrow> 0x30 \<le> c \<and> c \<le> 0x39"

definition digit_val :: "jschar \<Rightarrow> nat" where
  "digit_val c = unat c - 0x30"

definition digits_val :: "jsstring \<Rightarrow> nat" where
  "digits_val ds = foldl (\<lambda>a c. 10 * a + digit_val c) 0 ds"

definition digit_char :: "nat \<Rightarrow> jschar" where
  "digit_char d = of_nat (0x30 + d)"

text \<open>The decimal digits of a natural number, as \<^verbatim>\<open>String(n)\<close> writes an integer.\<close>

fun digits_of :: "nat \<Rightarrow> jsstring" where
  "digits_of n =
     (if n < 10 then [digit_char n] else digits_of (n div 10) @ [digit_char (n mod 10)])"

declare digits_of.simps [simp del]

subsection \<open>\<^verbatim>\<open>parseFloat\<close>\<close>

definition pow10 :: "int \<Rightarrow> rat" where
  "pow10 k = (if 0 \<le> k then 10 ^ nat k else 1 / 10 ^ nat (- k))"

text \<open>
  The value of the ExponentPart at the head of a string, \<open>0\<close> when there is
  none: \<^verbatim>\<open>e\<close> or \<^verbatim>\<open>E\<close>, an optional sign, and at least one digit.
\<close>

fun exponent_part :: "jsstring \<Rightarrow> int" where
  "exponent_part (c # s # r) =
     (if c = 0x65 \<or> c = 0x45 then
        (if s = 0x2B then int (digits_val (takeWhile is_digit r))
         else if s = 0x2D then - int (digits_val (takeWhile is_digit r))
         else int (digits_val (takeWhile is_digit (s # r))))
      else 0)"
| "exponent_part _ = 0"

text \<open>
  After the integer digits: the fraction digits behind a decimal point, and the
  rest of the string.
\<close>

definition after_integer :: "jsstring \<Rightarrow> jsstring \<times> jsstring" where
  "after_integer r =
     (case r of
        [] \<Rightarrow> ([], [])
      | c # r' \<Rightarrow>
          (if c = 0x2E then (takeWhile is_digit r', dropWhile is_digit r') else ([], r)))"

text \<open>
  The longest prefix that is a StrUnsignedDecimalLiteral, and its Number value;
  \<open>NaN\<close> when no prefix is one. The value is the double nearest to the exact
  decimal value, as the engines compute it (the standard lets an implementation
  round a literal of more than 20 significant digits less exactly).
\<close>

definition parse_unsigned :: "jsstring \<Rightarrow> jsnum" where
  "parse_unsigned s =
     (if strip_prefix (js ''Infinity'') s \<noteq> None then PosInf
      else
        (let ip = takeWhile is_digit s;
             (fp, r) = after_integer (dropWhile is_digit s)
         in if ip = [] \<and> fp = [] then NaN
            else round64 (of_nat (digits_val (ip @ fp))
                            * pow10 (exponent_part r - int (length fp)))))"

definition parseFloat :: "jsstring \<Rightarrow> jsnum" where
  "parseFloat s =
     (case dropWhile is_white_space s of
        [] \<Rightarrow> NaN
      | c # r \<Rightarrow>
          (if c = 0x2D then neg (parse_unsigned r)
           else if c = 0x2B then parse_unsigned r
           else parse_unsigned (c # r)))"

subsection \<open>\<^verbatim>\<open>Number.prototype.toFixed\<close>\<close>

text \<open>
  \<open>toFixed numberToString f v\<close> is \<^verbatim>\<open>v.toFixed(f)\<close>. From \<open>10 ^ 21\<close> on the
  source writes the number as \<^verbatim>\<open>String\<close> does, in exponent notation with the
  shortest digits that read back as the same double; that conversion is the
  parameter \<open>numberToString\<close>.
\<close>

definition toFixed :: "(rat \<Rightarrow> jsstring) \<Rightarrow> nat \<Rightarrow> jsnum \<Rightarrow> jsstring" where
  "toFixed numberToString f v =
     (case v of
        NaN \<Rightarrow> js ''NaN''
      | PosInf \<Rightarrow> js ''Infinity''
      | NegInf \<Rightarrow> js ''-Infinity''
      | Fin x \<Rightarrow>
          (let s = (if x < 0 then js ''-'' else []) in
           if 10 ^ 21 \<le> \<bar>x\<bar> then s @ numberToString \<bar>x\<bar>
           else
             (let m = digits_of (nat \<lfloor>\<bar>x\<bar> * 10 ^ f + 1 / 2\<rfloor>) in
              if f = 0 then s @ m
              else
                (let z = replicate (f + 1 - length m) 0x30 @ m;
                     k = length z
                 in s @ take (k - f) z @ js ''.'' @ drop (k - f) z))))"

section \<open>JSON values and the order-source client\<close>

text \<open>
  The values \<^verbatim>\<open>JSON.parse\<close> returns. An object is the list of its properties,
  each name once (of a name written twice in the text, the parser keeps the last).
\<close>

datatype json =
    JNull
  | JBool bool
  | JNum jsnum
  | JStr jsstring
  | JArr "json list"
  | JObj "(jsstring \<times> json) list"

text \<open>
  The property read \<^verbatim>\<open>v.name\<close> on a parsed value, for a name that no prototype
  defines (\<^verbatim>\<open>orders\<close>, \<^verbatim>\<open>total_price\<close>): a TypeError on \<^verbatim>\<open>null\<close>, the property
  of an object, \<^verbatim>\<open>undefined\<close> (\<open>None\<close>) otherwise.
\<close>

definition get_prop :: "jsstring \<Rightarrow> json \<Rightarrow> js_error + json option" where
  "get_prop name v =
     (case v of
        JNull \<Rightarrow> Inl TypeError
      | JObj kvs \<Rightarrow> Inr (map_of kvs name)
      | _ \<Rightarrow> Inr None)"

text \<open>The values that \<^verbatim>\<open>||\<close> replaces by its right operand.\<close>

fun falsy :: "json option \<Rightarrow> bool" where
  "falsy None = True"
| "falsy (Some JNull) = True"
| "falsy (Some (JBool b)) = (\<not> b)"
| "falsy (Some (JNum n)) = (n = Fin 0 \<or> n = NaN)"
| "falsy (Some (JStr s)) = (s = [])"
| "falsy (Some (JArr xs)) = False"
| "falsy (Some (JObj kvs)) = False"

text \<open>
  \<^verbatim>\<open>String(v)\<close> on a parsed value returns a string. An object is first asked for
  its \<^verbatim>\<open>toString\<close> and then for its \<^verbatim>\<open>valueOf\<close>: a property of its own named
  \<^verbatim>\<open>toString\<close> hides the inherited method, and since no parsed value can be
  called and the inherited \<^verbatim>\<open>valueOf\<close> returns the object itself, the conversion
  then throws a TypeError. An array is written by \<^verbatim>\<open>join\<close>, which converts every
  element that is not \<^verbatim>\<open>null\<close>.
\<close>

fun can_stringify :: "json \<Rightarrow> bool" where
  "can_stringify (JObj kvs) = (map_of kvs (js ''toString'') = None)"
| "can_stringify (JArr xs) = list_all can_stringify xs"
| "can_stringify JNull = True"
| "can_stringify (JBool b) = True"
| "can_stringify (JNum n) = True"
| "can_stringify (JStr s) = True"

text \<open>
  What \<^verbatim>\<open>parseFloat\<close> reads from \<^verbatim>\<open>String(v)\<close>, when that conversion returns. A
  string is parsed as it is. A Number is written by \<^verbatim>\<open>String\<close> with digits that
  read back as the same Number. \<^verbatim>\<open>true\<close>, \<^verbatim>\<open>null\<close>, an object
  (\<^verbatim>\<open>[object Object]\<close>) and the empty array (the empty string) give \<open>NaN\<close>. An
  array is written as its elements joined by commas, and no numeric literal goes
  beyond a comma: the result is that of the first element.
\<close>

fun parseFloat_value :: "json \<Rightarrow> jsnum" where
  "parseFloat_value (JStr s) = parseFloat s"
| "parseFloat_value (JNum n) = n"
| "parseFloat_value (JArr (x # xs)) = parseFloat_value x"
| "parseFloat_value (JArr []) = NaN"
| "parseFloat_value JNull = NaN"
| "parseFloat_value (JBool b) = NaN"
| "parseFloat_value (JObj kvs) = NaN"

text \<open>\<^verbatim>\<open>parseFloat(v)\<close> for a parsed value: the TypeError of \<^verbatim>\<open>String(v)\<close>, or the number read.\<close>

definition parseFloat_json :: "json \<Rightarrow> js_error + jsnum" where
  "parseFloat_json v = (if can_stringify v then Inr (parseFloat_value v) else Inl TypeError)"

text \<open>\<^verbatim>\<open>parseFloat(v || 0)\<close>.\<close>

definition price_or_zero :: "json option \<Rightarrow> js_error + jsnum" where
  "price_or_zero v =
     (case v of
        None \<Rightarrow> Inr (Fin 0)
      | Some j \<Rightarrow> (if falsy (Some j) then Inr (Fin 0) else parseFloat_json j))"

text \<open>\<^verbatim>\<open>parseFloat(order.total_price || 0)\<close>.\<close>

definition order_price :: "json \<Rightarrow> js_error + jsnum" where
  "order_price order =
     (case get_prop (js ''total_price'') order of
        Inl e \<Rightarrow> Inl e
      | Inr v \<Rightarrow> price_or_zero v)"

record order_totals =
  orders :: nat
  sales :: jsnum

text \<open>The body of \<^verbatim>\<open>for (const order of data.orders)\<close>, run over the items.\<close>

fun order_loop :: "json list \<Rightarrow> order_totals \<Rightarrow> js_error + order_totals" where
  "order_loop [] acc = Inr acc"
| "order_loop (order # rest) acc =
     (case order_price order of
        Inl e \<Rightarrow> Inl e
      | Inr p \<Rightarrow> order_loop rest \<lparr>orders = Suc (orders acc), sales = fadd (sales acc) p\<rparr>)"

text \<open>The string iterator: one item per code point, a surrogate pair taken together.\<close>

fun code_points :: "jsstring \<Rightarrow> jsstring list" where
  "code_points (a # b # cs) =
     (if 0xD800 \<le> a \<and> a \<le> 0xDBFF \<and> 0xDC00 \<le> b \<and> b \<le> 0xDFFF
      then [a, b] # code_points cs else [a] # code_points (b # cs))"
| "code_points [a] = [[a]]"
| "code_points [] = []"

text \<open>
  The items a \<^verbatim>\<open>for ... of\<close> loop visits: the elements of an array, the code
  points of a string; every other value, \<^verbatim>\<open>undefined\<close> included, is not iterable.
\<close>

definition iterate :: "json option \<Rightarrow> js_error + json list" where
  "iterate v =
     (case v of
        Some (JArr xs) \<Rightarrow> Inr xs
      | Some (JStr s) \<Rightarrow> Inr (map JStr (code_points s))
      | _ \<Rightarrow> Inl TypeError)"

text \<open>
  A response of \<^verbatim>\<open>fetch\<close>: \<^verbatim>\<open>res.ok\<close>, \<^verbatim>\<open>res.status\<close>, what \<^verbatim>\<open>res.text()\<close> and
  \<^verbatim>\<open>res.json()\<close> resolve to (the latter rejects when the body is not JSON), and the
  bytes of the \<^verbatim>\<open>Link\<close> header, which \<^verbatim>\<open>res.headers.get('link')\<close> returns as a
  string of the same code units.
\<close>

record response =
  res_ok :: bool
  res_status :: nat
  res_text :: jsstring
  res_json :: "js_error + json"
  res_link :: "string option"

definition then_do :: "'e + 'a \<Rightarrow> ('a \<Rightarrow> 'e + 'b) \<Rightarrow> 'e + 'b" where
  "then_do r f = (case r of Inl e \<Rightarrow> Inl e | Inr x \<Rightarrow> f x)"

text \<open>
  One turn of the \<^verbatim>\<open>do ... while\<close> loop after \<^verbatim>\<open>fetch\<close> has resolved: the new
  totals and the next cursor, or the error thrown.
\<close>

definition page_step :: "response \<Rightarrow> order_totals \<Rightarrow> js_error + order_totals \<times> jsstring option" where
  "page_step res acc =
     (if \<not> res_ok res
      then Inl (Error (js ''Shopify API error '' @ digits_of (res_status res) @ js '': '' @ res_text res))
      else
        then_do (res_json res) (\<lambda>data.
        then_do (get_prop (js ''orders'') data) (\<lambda>os.
        then_do (iterate os) (\<lambda>items.
        then_do (order_loop items acc) (\<lambda>acc'.
        then_do (getNextPage (map_option js (res_link res))) (\<lambda>pageInfo.
        Inr (acc', pageInfo)))))))"

text \<open>
  What a request is built from. The two timestamps of the 90-day window are read
  from the clock and enter the URL only.
\<close>

record shopify_request =
  req_store :: jsstring
  req_token :: jsstring
  req_query :: jsstring
  req_page_info :: "jsstring option"

text \<open>The test \<^verbatim>\<open>if (s)\<close> on a value that is a string, \<^verbatim>\<open>null\<close> or \<^verbatim>\<open>undefined\<close>.\<close>

definition truthy :: "jsstring option \<Rightarrow> bool" where
  "truthy v \<longleftrightarrow> (case v of None \<Rightarrow> False | Some s \<Rightarrow> s \<noteq> [])"

text \<open>
  The \<^verbatim>\<open>do ... while (pageInfo)\<close> loop. The network is the list of the outcomes
  of the successive \<^verbatim>\<open>fetch\<close> calls, each a rejection or a response. The result is
  the list of requests sent, and how the call ends: \<open>None\<close> when a request gets
  no answer (the list is used up), else the error thrown or the totals returned.
\<close>

fun page_loop ::
  "shopify_request \<Rightarrow> (js_error + response) list \<Rightarrow> jsstring option \<Rightarrow> order_totals
     \<Rightarrow> shopify_request list \<times> (js_error + order_totals) option" where
  "page_loop base [] pageInfo acc =
     ([base\<lparr>req_page_info := (if truthy pageInfo then pageInfo else None)\<rparr>], None)"
| "page_loop base (answer # net) pageInfo acc =
     (let req = base\<lparr>req_page_info := (if truthy pageInfo then pageInfo else None)\<rparr> in
      case then_do answer (\<lambda>res. page_step res acc) of
        Inl e \<Rightarrow> ([req], Some (Inl e))
      | Inr (acc', next) \<Rightarrow>
          (if truthy next
           then (case page_loop base net next acc' of (sent, outcome) \<Rightarrow> (req # sent, outcome))
           else ([req], Some (Inr acc'))))"

text \<open>\<^verbatim>\<open>process.env\<close>: each variable is unset or a string.\<close>

record environment =
  SHOPIFY_STORE :: "jsstring option"
  SHOPIFY_ADMIN_TOKEN :: "jsstring option"
  GA4_PROPERTY_ID :: "jsstring option"
  GA4_CLIENT_EMAIL :: "jsstring option"
  GA4_PRIVATE_KEY :: "jsstring option"
  SEGMENT_SHOPIFY_QUERY :: "jsstring option"
  SEGMENT_GA_FILTER :: "jsstring option"

definition fetchShopify ::
  "environment \<Rightarrow> (js_error + response) list
     \<Rightarrow> shopify_request list \<times> (js_error + order_totals) option" where
  "fetchShopify env net =
     (case (SHOPIFY_STORE env, SHOPIFY_ADMIN_TOKEN env) of
        (Some store, Some token) \<Rightarrow>
          (if store = [] \<or> token = []
           then ([], Some (Inl (Error (js ''Missing SHOPIFY_STORE or SHOPIFY_ADMIN_TOKEN environment variables''))))
           else page_loop
                  \<lparr>req_store = store, req_token = token,
                   req_query = (case SEGMENT_SHOPIFY_QUERY env of None \<Rightarrow> [] | Some q \<Rightarrow> q),
                   req_page_info = None\<rparr>
                  net None \<lparr>orders = 0, sales = Fin 0\<rparr>)
      | _ \<Rightarrow> ([], Some (Inl (Error (js ''Missing SHOPIFY_STORE or SHOPIFY_ADMIN_TOKEN environment variables'')))))"

section \<open>The analytics-source client\<close>

text \<open>\<^verbatim>\<open>key.replace(/\\n/g, '\n')\<close>: every backslash followed by \<^verbatim>\<open>n\<close> becomes a line feed.\<close>

fun unescape_newlines :: "jsstring \<Rightarrow> jsstring" where
  "unescape_newlines (a # b # cs) =
     (if a = 0x5C \<and> b = 0x6E then 0x0A # unescape_newlines cs
      else a # unescape_newlines (b # cs))"
| "unescape_newlines cs = cs"

record report_request =
  property :: jsstring
  dateRanges :: "(jsstring \<times> jsstring) list"
  metrics :: "jsstring list"
  dimensionFilter :: "json option"

text \<open>
  The report of the Data API, as its client library types it: \<^verbatim>\<open>rows\<close>,
  \<^verbatim>\<open>metricValues\<close> and \<^verbatim>\<open>value\<close> may each be absent.
\<close>

datatype metric_value = MetricValue (mv_value: "jsstring option")

datatype row = Row (metricValues: "metric_value list option")

datatype report_response = Report (rows: "row list option")

record analytics =
  sessions :: jsnum
  conversionRate :: jsnum

text \<open>
  \<^verbatim>\<open>parseFloat(row.metricValues[i].value)\<close>: a TypeError when \<^verbatim>\<open>metricValues\<close> is
  absent or has no element \<open>i\<close>; \<open>NaN\<close> for an absent value.
\<close>

definition metric_at :: "nat \<Rightarrow> row \<Rightarrow> js_error + jsnum" where
  "metric_at i r =
     (case metricValues r of
        None \<Rightarrow> Inl TypeError
      | Some mvs \<Rightarrow>
          (if i < length mvs
           then Inr (case mv_value (mvs ! i) of None \<Rightarrow> NaN | Some s \<Rightarrow> parseFloat s)
           else Inl TypeError))"

text \<open>The lines after \<^verbatim>\<open>runReport\<close> has resolved.\<close>

definition read_report :: "report_response \<Rightarrow> js_error + analytics" where
  "read_report response =
     (case rows response of
        None \<Rightarrow> Inr \<lparr>sessions = Fin 0, conversionRate = Fin 0\<rparr>
      | Some [] \<Rightarrow> Inr \<lparr>sessions = Fin 0, conversionRate = Fin 0\<rparr>
      | Some (r # _) \<Rightarrow>
          then_do (metric_at 0 r) (\<lambda>s.
          then_do (metric_at 1 r) (\<lambda>c.
          Inr \<lparr>sessions = s, conversionRate = c\<rparr>)))"

text \<open>
  What \<^verbatim>\<open>fetchGA4\<close> does to the outside: a warning on the console, and the one
  call of \<^verbatim>\<open>runReport\<close> with the client's credentials and the request.
\<close>

datatype ga_effect =
    Warn jsstring
  | RunReport jsstring jsstring report_request

text \<open>
  The request with the optional dimension filter, and the warnings logged.
  \<open>json_parse\<close> is \<^verbatim>\<open>JSON.parse\<close>, with \<open>None\<close> for the SyntaxError it throws.
\<close>

definition build_request ::
  "(jsstring \<Rightarrow> json option) \<Rightarrow> jsstring \<Rightarrow> jsstring option \<Rightarrow> ga_effect list \<times> report_request" where
  "build_request json_parse propertyId dimFilter =
     (let request =
            \<lparr>property = js ''properties/'' @ propertyId,
             dateRanges = [(js ''90daysAgo'', js ''today'')],
             metrics = [js ''sessions'', js ''sessionConversionRate''],
             dimensionFilter = None\<rparr>
      in if truthy dimFilter
         then (case dimFilter of
                 None \<Rightarrow> ([], request)
               | Some f \<Rightarrow>
                   (case json_parse f of
                      Some parsed \<Rightarrow> ([], request\<lparr>dimensionFilter := Some parsed\<rparr>)
                    | None \<Rightarrow> ([Warn (js ''Invalid SEGMENT_GA_FILTER JSON, ignoring'')], request)))
         else ([], request))"

text \<open>
  \<^verbatim>\<open>fetchGA4\<close>. \<open>runReport\<close> is the Data API: for a request, the rejection or the
  report it resolves to, or \<open>None\<close> when it never answers.
\<close>

definition fetchGA4 ::
  "(jsstring \<Rightarrow> json option) \<Rightarrow> (report_request \<Rightarrow> (js_error + report_response) option)
     \<Rightarrow> environment \<Rightarrow> ga_effect list \<times> (js_error + analytics) option" where
  "fetchGA4 json_parse runReport env =
     (let propertyId = GA4_PROPERTY_ID env;
          clientEmail = GA4_CLIENT_EMAIL env;
          privateKey = (if truthy (GA4_PRIVATE_KEY env)
                        then map_option unescape_newlines (GA4_PRIVATE_KEY env)
                        else GA4_PRIVATE_KEY env)
      in case (propertyId, clientEmail, privateKey) of
           (Some p, Some c, Some k) \<Rightarrow>
             (if p = [] \<or> c = [] \<or> k = []
              then ([], Some (Inl (Error (js ''Missing GA4 service account credentials.''))))
              else
                (case build_request json_parse p (SEGMENT_GA_FILTER env) of
                   (warnings, request) \<Rightarrow>
                     (warnings @ [RunReport c k request],
                      map_option (\<lambda>answer. then_do answer read_report) (runReport request))))
         | _ \<Rightarrow> ([], Some (Inl (Error (js ''Missing GA4 service account credentials.'')))))"

section \<open>The aggregator: \<^verbatim>\<open>main\<close>\<close>

record output_record =
  out_sessions :: jsnum
  out_orders :: nat
  out_sales :: jsnum
  out_conversionRate :: jsnum
  sessionsDelta :: "jsnum option"
  ordersDelta :: "jsnum option"
  salesDelta :: "jsnum option"
  conversionRateDelta :: "jsnum option"
  labels :: "jsstring list option"
  series :: "jsnum list option"

text \<open>
  The object \<^verbatim>\<open>output\<close>. Its fields \<^verbatim>\<open>sessions\<close>, \<^verbatim>\<open>orders\<close>, \<^verbatim>\<open>sales\<close> and
  \<^verbatim>\<open>conversionRate\<close> are \<open>out_sessions\<close>, \<open>out_orders\<close>, \<open>out_sales\<close> and
  \<open>out_conversionRate\<close> here; \<open>None\<close> is \<^verbatim>\<open>null\<close>.
\<close>

definition compose_output :: "(rat \<Rightarrow> jsstring) \<Rightarrow> order_totals \<Rightarrow> analytics \<Rightarrow> output_record" where
  "compose_output numberToString shopify ga =
     \<lparr>out_sessions = math_round (sessions ga),
      out_orders = orders shopify,
      out_sales = parseFloat (toFixed numberToString 2 (sales shopify)),
      out_conversionRate =
        parseFloat (toFixed numberToString 2 (fmul (conversionRate ga) (Fin 100))),
      sessionsDelta = None,
      ordersDelta = None,
      salesDelta = None,
      conversionRateDelta = None,
      labels = None,
      series = None\<rparr>"

text \<open>
  \<^verbatim>\<open>Promise.all\<close> of two promises, each pending for ever (\<open>None\<close>), rejected or
  fulfilled. It rejects with the rejection that comes first: \<open>first_wins\<close> says
  that the first promise settles before the second.
\<close>

definition promise_all ::
  "bool \<Rightarrow> (js_error + 'a) option \<Rightarrow> (js_error + 'b) option \<Rightarrow> (js_error + 'a \<times> 'b) option" where
  "promise_all first_wins p q =
     (case (p, q) of
        (Some (Inr x), Some (Inr y)) \<Rightarrow> Some (Inr (x, y))
      | (Some (Inl e), Some (Inl e')) \<Rightarrow> Some (Inl (if first_wins then e else e'))
      | (Some (Inl e), _) \<Rightarrow> Some (Inl e)
      | (_, Some (Inl e')) \<Rightarrow> Some (Inl e')
      | _ \<Rightarrow> None)"

text \<open>
  What a run leaves behind: the record written to the output file by this run
  (\<open>None\<close>: the file was not written), the lines of \<^verbatim>\<open>console.log\<close> (without
  the path of the file, which depends on where the script is installed), the
  errors of \<^verbatim>\<open>console.error\<close>, and the exit status.
\<close>

record process_state =
  written :: "output_record option"
  console_log :: "jsstring list"
  console_error :: "js_error list"
  exit_status :: nat

text \<open>
  \<^verbatim>\<open>main().catch(...)\<close>, from the outcomes of the two fetches. \<open>fs_error\<close> is the
  exception of \<^verbatim>\<open>mkdirSync\<close> or \<^verbatim>\<open>writeFileSync\<close>, if one is thrown. The result
  is \<open>None\<close> when \<^verbatim>\<open>Promise.all\<close> never settles.
\<close>

definition main ::
  "(rat \<Rightarrow> jsstring) \<Rightarrow> bool \<Rightarrow> js_error option
     \<Rightarrow> (js_error + order_totals) option \<Rightarrow> (js_error + analytics) option
     \<Rightarrow> process_state option" where
  "main numberToString shopify_first fs_error shopify_result ga_result =
     (case promise_all shopify_first shopify_result ga_result of
        None \<Rightarrow> None
      | Some (Inl err) \<Rightarrow>
          Some \<lparr>written = None, console_log = [], console_error = [err], exit_status = 1\<rparr>
      | Some (Inr (shopify, ga)) \<Rightarrow>
          (case fs_error of
             Some err \<Rightarrow>
               Some \<lparr>written = None, console_log = [], console_error = [err], exit_status = 1\<rparr>
           | None \<Rightarrow>
               Some \<lparr>written = Some (compose_output numberToString shopify ga),
                     console_log = [js ''Updated''], console_error = [], exit_status = 0\<rparr>))"

text \<open>The whole script: both clients are started, and \<open>main\<close> waits for them.\<close>

definition run ::
  "(rat \<Rightarrow> jsstring) \<Rightarrow> (jsstring \<Rightarrow> json option) \<Rightarrow> bool \<Rightarrow> js_error option
     \<Rightarrow> (js_error + response) list \<Rightarrow> (report_request \<Rightarrow> (js_error + report_response) option)
     \<Rightarrow> environment \<Rightarrow> process_state option" where
  "run numberToString json_parse shopify_first fs_error net runReport env =
     main numberToString shopify_first fs_error
       (snd (fetchShopify env net)) (snd (fetchGA4 json_parse runReport env))"

section \<open>Notions used to state the properties\<close>

text \<open>The \<^verbatim>\<open>total_price\<close> property of an order item (\<open>None\<close>: \<^verbatim>\<open>undefined\<close>).\<close>

definition total_price :: "json \<Rightarrow> json option" where
  "total_price order = (case order of JObj kvs \<Rightarrow> map_of kvs (js ''total_price'') | _ \<Rightarrow> None)"

text \<open>
  The number \<^verbatim>\<open>parseFloat(v || 0)\<close> evaluates to, when it does not throw.
\<close>

definition price_value :: "json option \<Rightarrow> jsnum" where
  "price_value v =
     (case v of
        None \<Rightarrow> Fin 0
      | Some j \<Rightarrow> (if falsy (Some j) then Fin 0 else parseFloat_value j))"

text \<open>
  An order item whose price can be read: the item is not \<^verbatim>\<open>null\<close>, and its
  \<^verbatim>\<open>total_price\<close> is absent or a value that \<^verbatim>\<open>String\<close> converts (a string, a
  number, a boolean, \<^verbatim>\<open>null\<close>, or an object or array that holds no object with a
  property named \<^verbatim>\<open>toString\<close>).
\<close>

definition priced :: "json \<Rightarrow> bool" where
  "priced order \<longleftrightarrow>
     order \<noteq> JNull
     \<and> (case total_price order of None \<Rightarrow> True | Some v \<Rightarrow> can_stringify v)"

text \<open>
  A successful response of the order API with the order items \<open>items\<close>: the status
  is a success, the body is JSON whose \<^verbatim>\<open>orders\<close> property is the array \<open>items\<close>,
  and the price of every item can be read.
\<close>

definition order_page :: "response \<Rightarrow> json list \<Rightarrow> bool" where
  "order_page res items \<longleftrightarrow>
     res_ok res
     \<and> (case res_json res of
          Inr data \<Rightarrow> get_prop (js ''orders'') data = Inr (Some (JArr items))
        | Inl e \<Rightarrow> False)
     \<and> list_all priced items"

text \<open>The response carries a next cursor; the response is the last page.\<close>

definition has_next :: "response \<Rightarrow> bool" where
  "has_next res \<longleftrightarrow>
     (case getNextPage (map_option js (res_link res)) of
        Inr (Some cursor) \<Rightarrow> cursor \<noteq> []
      | _ \<Rightarrow> False)"

definition is_last :: "response \<Rightarrow> bool" where
  "is_last res \<longleftrightarrow> getNextPage (map_option js (res_link res)) = Inr None"

text \<open>
  The totals after the loop has gone through the responses \<open>pages\<close> and goes on
  to a further request; \<open>None\<close> when it ends within them.
\<close>

fun advance :: "response list \<Rightarrow> order_totals \<Rightarrow> order_totals option" where
  "advance [] acc = Some acc"
| "advance (res # pages) acc =
     (case page_step res acc of
        Inl e \<Rightarrow> None
      | Inr (acc', next) \<Rightarrow> (if truthy next then advance pages acc' else None))"

text \<open>The value of \<^verbatim>\<open>data.orders\<close> can be iterated: it is an array or a string.\<close>

definition orders_iterable :: "json \<Rightarrow> bool" where
  "orders_iterable data \<longleftrightarrow>
     (case get_prop (js ''orders'') data of
        Inr (Some (JArr xs)) \<Rightarrow> True
      | Inr (Some (JStr s)) \<Rightarrow> True
      | _ \<Rightarrow> False)"

text \<open>The environment holds both credentials of the order API.\<close>

definition shopify_configured :: "environment \<Rightarrow> bool" where
  "shopify_configured env \<longleftrightarrow>
     truthy (SHOPIFY_STORE env) \<and> truthy (SHOPIFY_ADMIN_TOKEN env)"

definition ga_configured :: "environment \<Rightarrow> bool" where
  "ga_configured env \<longleftrightarrow>
     truthy (GA4_PROPERTY_ID env) \<and> truthy (GA4_CLIENT_EMAIL env) \<and> truthy (GA4_PRIVATE_KEY env)"

text \<open>A success response whose \<^verbatim>\<open>orders\<close> value can be iterated.\<close>

definition success_iterable :: "response \<Rightarrow> bool" where
  "success_iterable res \<longleftrightarrow>
     res_ok res \<and> (case res_json res of Inr data \<Rightarrow> orders_iterable data | Inl e \<Rightarrow> False)"

text \<open>The request \<^verbatim>\<open>fetchGA4\<close> sends when no dimension filter is attached.\<close>

definition plain_request :: "jsstring \<Rightarrow> report_request" where
  "plain_request propertyId =
     \<lparr>property = js ''properties/'' @ propertyId,
      dateRanges = [(js ''90daysAgo'', js ''today'')],
      metrics = [js ''sessions'', js ''sessionConversionRate''],
      dimensionFilter = None\<rparr>"

section \<open>Example data\<close>

definition example_env :: environment where
  "example_env =
     \<lparr>SHOPIFY_STORE = Some (js ''shop''), SHOPIFY_ADMIN_TOKEN = Some (js ''tok''),
      GA4_PROPERTY_ID = Some (js ''123''), GA4_CLIENT_EMAIL = Some (js ''a@b''),
      GA4_PRIVATE_KEY = Some [0x6B, 0x5C, 0x6E], SEGMENT_SHOPIFY_QUERY = None,
      SEGMENT_GA_FILTER = None\<rparr>"

definition order_with_price :: "string \<Rightarrow> json" where
  "order_with_price p = JObj [(js ''total_price'', JStr (js p))]"

text \<open>A first page with two orders and a next cursor, a last page with one order.\<close>

definition page_one :: response where
  \<open>page_one =
     \<lparr>res_ok = True, res_status = 200, res_text = [],
      res_json = Inr (JObj [(js ''orders'', JArr [order_with_price ''9.99'', order_with_price ''9.99''])]),
      res_link = Some ''<https://s/o?page_info=ABC>; rel="next"''\<rparr>\<close>

definition page_two :: response where
  "page_two =
     \<lparr>res_ok = True, res_status = 200, res_text = [],
      res_json = Inr (JObj [(js ''orders'', JArr [order_with_price ''5.00''])]),
      res_link = None\<rparr>"

definition error_page :: response where
  "error_page =
     \<lparr>res_ok = False, res_status = 429, res_text = js ''Too Many Requests'',
      res_json = Inl SyntaxError, res_link = None\<rparr>"

text \<open>A success response whose body is \<open>data\<close>, without a next cursor.\<close>

definition page_with_body :: "json \<Rightarrow> response" where
  "page_with_body data =
     \<lparr>res_ok = True, res_status = 200, res_text = [], res_json = Inr data, res_link = None\<rparr>"

text \<open>
  The fetch results \<^verbatim>\<open>{orders: 10, sales: 199.996}\<close> and
  \<^verbatim>\<open>{sessions: 500.4, conversionRate: 0.03333}\<close>; each literal is the double
  nearest to it.
\<close>

definition example_totals :: order_totals where
  "example_totals = \<lparr>orders = 10, sales = round64 (199996 / 1000)\<rparr>"

definition example_analytics :: analytics where
  "example_analytics = \<lparr>sessions = round64 (5004 / 10), conversionRate = round64 (3333 / 100000)\<rparr>"

text \<open>A report with the single row \<^verbatim>\<open>[sessions=1000, conversionRate=0.025]\<close>.\<close>

definition example_report :: report_response where
  "example_report =
     Report (Some [Row (Some [MetricValue (Some (js ''1000'')), MetricValue (Some (js ''0.025''))])])"

text \<open>
  A stand-in for \<^verbatim>\<open>JSON.parse\<close> that knows the three literals, and an API that
  answers every request with the example report.
\<close>

definition parse_literal :: "jsstring \<Rightarrow> json option" where
  "parse_literal s =
     (if s = js ''null'' then Some JNull
      else if s = js ''true'' then Some (JBool True)
      else if s = js ''false'' then Some (JBool False)
      else None)"

definition example_api :: "report_request \<Rightarrow> (js_error + report_response) option" where
  "example_api request = Some (Inr example_report)"

section \<open>Evaluating the model\<close>

lemma truthy_simps [simp]:
  "truthy None = False" "truthy (Some s) = (s \<noteq> [])"
  by (simp_all add: truthy_def)

lemma then_do_simps [simp]:
  "then_do (Inl e) f = Inl e" "then_do (Inr x) f = f x"
  by (simp_all add: then_do_def)

lemma round64_0 [simp]: "round64 0 = Fin 0"
  by (simp add: round64_def)

lemma continuation_octets_numeral:
  "continuation_octets (numeral k) s = continuation_octets (Suc (pred_numeral k)) s"
  by (simp add: numeral_eq_Suc)

lemma floor_rat_numeral_div:
  "\<lfloor>(numeral a :: rat) / numeral b\<rfloor> = numeral a div numeral b"
  using floor_divide_of_int_eq [of "numeral a" "numeral b", where ?'a = rat] by simp

lemma floor_rat_neg_numeral_div:
  "\<lfloor>- (numeral a :: rat) / numeral b\<rfloor> = - numeral a div numeral b"
  using floor_divide_of_int_eq [of "- numeral a" "numeral b", where ?'a = rat] by simp

lemma ceiling_rat_numeral_div:
  "\<lceil>(numeral a :: rat) / numeral b\<rceil> = - (- numeral a div numeral b)"
  unfolding ceiling_def using floor_rat_neg_numeral_div [of a b] by simp

lemmas paginator_eval =
  getNextPage_def link_parts_def js_def url_rel_def trim_def is_white_space_def
  rel_next_def cursor_of_def page_info_eq_def not_amp_gt_def is_next_def
  hex_val_def leading_ones_def is_continuation_def utf16_encode_def

lemmas number_eval =
  round64_def ilog2_def pow2_def pow10_def round_half_even_def Let_def bitlen.simps
  floor_rat_numeral_div floor_rat_neg_numeral_div ceiling_rat_numeral_div
  parseFloat_def parse_unsigned_def after_integer_def is_digit_def digit_val_def
  digits_val_def is_white_space_def js_def neg_def

lemmas example_eval =
  example_env_def order_with_price_def page_one_def page_two_def error_page_def
  page_with_body_def shopify_configured_def ga_configured_def order_page_def
  has_next_def is_last_def get_prop_def total_price_def price_or_zero_def
  price_value_def priced_def parseFloat_json_def

lemmas client_eval =
  fetchShopify_def page_step_def iterate_def order_price_def fetchGA4_def build_request_def
  read_report_def metric_at_def

section \<open>Properties of the paginator\<close>

lemma split_on_not_Nil: "split_on sep s \<noteq> []"
  by (induction s) (auto split: list.splits)

lemma url_rel_fst: "\<exists>u. fst (url_rel part) = Some u"
  using split_on_not_Nil [of "0x3B" part]
  by (auto simp: url_rel_def split: list.splits)

lemma next_in_parts_find:
  "next_in_parts parts =
     (case find is_next parts of
        None \<Rightarrow> Inr None
      | Some seg \<Rightarrow> cursor_of (fst (url_rel seg)))"
  by (induction parts) auto

lemma strip_prefix_Some: "strip_prefix p s = Some r \<longleftrightarrow> s = p @ r"
  by (induction p s rule: strip_prefix.induct) auto

lemma match_page_info_sound:
  assumes "match_page_info u = Some tok"
  shows "\<exists>pre post. u = pre @ page_info_eq @ tok @ post \<and> tok \<noteq> []
           \<and> (\<forall>c \<in> set tok. c \<noteq> 0x26 \<and> c \<noteq> 0x3E)
           \<and> (post = [] \<or> hd post = 0x26 \<or> hd post = 0x3E)"
  using assms
proof (induction u)
  case Nil
  then show ?case by simp
next
  case (Cons c cs)
  show ?case
  proof (cases "strip_prefix page_info_eq (c # cs)")
    case None
    with Cons.prems have "match_page_info cs = Some tok" by simp
    from Cons.IH [OF this] obtain pre post where
      "cs = pre @ page_info_eq @ tok @ post" "tok \<noteq> []"
      "\<forall>c \<in> set tok. c \<noteq> 0x26 \<and> c \<noteq> 0x3E"
      "post = [] \<or> hd post = 0x26 \<or> hd post = 0x3E" by blast
    then have "c # cs = (c # pre) @ page_info_eq @ tok @ post" by simp
    with \<open>tok \<noteq> []\<close> \<open>\<forall>c \<in> set tok. c \<noteq> 0x26 \<and> c \<noteq> 0x3E\<close>
      \<open>post = [] \<or> hd post = 0x26 \<or> hd post = 0x3E\<close>
    show ?thesis by blast
  next
    case (Some rest)
    then have eq: "c # cs = page_info_eq @ rest" by (simp add: strip_prefix_Some)
    show ?thesis
    proof (cases "takeWhile not_amp_gt rest = []")
      case True
      with Some Cons.prems have "match_page_info cs = Some tok" by simp
      from Cons.IH [OF this] obtain pre post where
        "cs = pre @ page_info_eq @ tok @ post" "tok \<noteq> []"
        "\<forall>c \<in> set tok. c \<noteq> 0x26 \<and> c \<noteq> 0x3E"
        "post = [] \<or> hd post = 0x26 \<or> hd post = 0x3E" by blast
      then have "c # cs = (c # pre) @ page_info_eq @ tok @ post" by simp
      with \<open>tok \<noteq> []\<close> \<open>\<forall>c \<in> set tok. c \<noteq> 0x26 \<and> c \<noteq> 0x3E\<close>
        \<open>post = [] \<or> hd post = 0x26 \<or> hd post = 0x3E\<close>
      show ?thesis by blast
    next
      case False
      with Some Cons.prems have tok: "tok = takeWhile not_amp_gt rest" by simp
      have "rest = tok @ dropWhile not_amp_gt rest" by (simp add: tok)
      with eq have 1: "c # cs = [] @ page_info_eq @ tok @ dropWhile not_amp_gt rest" by simp
      have 2: "\<forall>c \<in> set tok. c \<noteq> 0x26 \<and> c \<noteq> 0x3E"
        using set_takeWhileD [of _ not_amp_gt rest] by (auto simp: tok not_amp_gt_def)
      have 3: "dropWhile not_amp_gt rest = [] \<or> hd (dropWhile not_amp_gt rest) = 0x26
                 \<or> hd (dropWhile not_amp_gt rest) = 0x3E"
        using hd_dropWhile [of not_amp_gt rest] by (auto simp: not_amp_gt_def)
      from 1 2 3 False tok show ?thesis by blast
    qed
  qed
qed

lemma match_page_info_None_tail:
  "match_page_info (c # cs) = None \<Longrightarrow> match_page_info cs = None"
  by (auto split: option.splits if_splits)

lemma match_page_info_complete:
  "match_page_info u = None \<Longrightarrow> u \<noteq> pre @ page_info_eq @ c # post \<or> \<not> not_amp_gt c"
proof (induction pre arbitrary: u)
  case Nil
  show ?case
  proof (rule ccontr)
    assume "\<not> (u \<noteq> [] @ page_info_eq @ c # post \<or> \<not> not_amp_gt c)"
    then have u: "u = page_info_eq @ c # post" and c: "not_amp_gt c" by simp_all
    have "u \<noteq> []" by (simp add: u)
    then obtain a as where as: "u = a # as" by (cases u) auto
    have "strip_prefix page_info_eq (a # as) = Some (c # post)"
      using u as by (simp add: strip_prefix_Some)
    with c have "match_page_info (a # as) \<noteq> None" by simp
    with Nil as show False by simp
  qed
next
  case (Cons p pre)
  show ?case
  proof (rule ccontr)
    assume "\<not> (u \<noteq> (p # pre) @ page_info_eq @ c # post \<or> \<not> not_amp_gt c)"
    then have u: "u = p # (pre @ page_info_eq @ c # post)" and c: "not_amp_gt c" by simp_all
    from Cons.prems have "match_page_info (pre @ page_info_eq @ c # post) = None"
      unfolding u by (rule match_page_info_None_tail)
    from Cons.IH [OF this] c show False by simp
  qed
qed

text \<open>
  Claim C2, as amended. \<open>getNextPage\<close> returns \<^verbatim>\<open>null\<close> for an absent or empty
  header, when no comma-separated segment has the relation part \<^verbatim>\<open>rel="next"\<close>, and
  when the URL part of the first such segment has no match for \<^verbatim>\<open>page_info=\<close>:
  nowhere in it is \<^verbatim>\<open>page_info=\<close> followed by a character other than \<^verbatim>\<open>&\<close> and
  \<^verbatim>\<open>>\<close>. Otherwise the result is decided by the captured token of that first
  segment, a nonempty run of such characters right after \<^verbatim>\<open>page_info=\<close> that ends
  at the end of the URL part or before \<^verbatim>\<open>&\<close> or \<^verbatim>\<open>>\<close>: the decoded token when it
  is a well-formed percent-encoding, and a thrown URIError when it is not.
\<close>

theorem getNextPage_cursor:
  "getNextPage None = Inr None
   \<and> getNextPage (Some []) = Inr None
   \<and> (h \<noteq> [] \<and> find is_next (link_parts h) = None
        \<longrightarrow> getNextPage (Some h) = Inr None)
   \<and> (h \<noteq> [] \<and> find is_next (link_parts h) = Some seg
        \<longrightarrow> (\<exists>urlPart. fst (url_rel seg) = Some urlPart))
   \<and> (h \<noteq> [] \<and> find is_next (link_parts h) = Some seg
        \<and> fst (url_rel seg) = Some urlPart \<and> match_page_info urlPart = None
        \<longrightarrow> getNextPage (Some h) = Inr None
            \<and> (urlPart \<noteq> pre @ page_info_eq @ c # post \<or> c = 0x26 \<or> c = 0x3E))
   \<and> (h \<noteq> [] \<and> find is_next (link_parts h) = Some seg
        \<and> fst (url_rel seg) = Some urlPart \<and> match_page_info urlPart = Some tok
        \<longrightarrow> (\<exists>before after. urlPart = before @ page_info_eq @ tok @ after \<and> tok \<noteq> []
               \<and> (\<forall>c \<in> set tok. c \<noteq> 0x26 \<and> c \<noteq> 0x3E)
               \<and> (after = [] \<or> hd after = 0x26 \<or> hd after = 0x3E)))
   \<and> (h \<noteq> [] \<and> find is_next (link_parts h) = Some seg
        \<and> fst (url_rel seg) = Some urlPart \<and> match_page_info urlPart = Some tok
        \<and> decodeURIComponent tok = Some cursor
        \<longrightarrow> getNextPage (Some h) = Inr (Some cursor))
   \<and> (h \<noteq> [] \<and> find is_next (link_parts h) = Some seg
        \<and> fst (url_rel seg) = Some urlPart \<and> match_page_info urlPart = Some tok
        \<and> decodeURIComponent tok = None
        \<longrightarrow> getNextPage (Some h) = Inl URIError)"
proof -
  have complete: "urlPart \<noteq> pre @ page_info_eq @ c # post \<or> c = 0x26 \<or> c = 0x3E"
    if "match_page_info urlPart = None"
    using match_page_info_complete [OF that, of pre c post] by (auto simp: not_amp_gt_def)
  have sound: "\<exists>before after. urlPart = before @ page_info_eq @ tok @ after \<and> tok \<noteq> []
               \<and> (\<forall>c \<in> set tok. c \<noteq> 0x26 \<and> c \<noteq> 0x3E)
               \<and> (after = [] \<or> hd after = 0x26 \<or> hd after = 0x3E)"
    if "match_page_info urlPart = Some tok"
    using that by (rule match_page_info_sound)
  show ?thesis
    using url_rel_fst [of seg] complete sound
    by (simp add: getNextPage_def next_in_parts_find cursor_of_def) blast
qed

theorem getNextPage_cursor_witness:
  \<open>getNextPage (Some (js ''<url1>; rel="prev", <url2?page_info=ABC>; rel="next"''))
     = Inr (Some (js ''ABC''))
   \<and> getNextPage (Some (js ''<u?page_info=a%2Fb%E2%82%AC&limit=250>; rel="next"''))
     = Inr (Some [0x61, 0x2F, 0x62, 0x20AC])
   \<and> getNextPage (Some (js ''<url1>; rel="prev"'')) = Inr None
   \<and> getNextPage (Some (js ''<url2?limit=250>; rel="next"'')) = Inr None\<close>
proof -
  let ?h1 = \<open>js ''<url1>; rel="prev", <url2?page_info=ABC>; rel="next"''\<close>
  let ?s1 = \<open>js ''<url2?page_info=ABC>; rel="next"''\<close>
  let ?u1 = \<open>js ''<url2?page_info=ABC>''\<close>
  have a: "?h1 \<noteq> []" by (simp add: js_def)
  have b: "find is_next (link_parts ?h1) = Some ?s1" by (simp add: paginator_eval)
  have c: "fst (url_rel ?s1) = Some ?u1" by (simp add: paginator_eval)
  have d: "match_page_info ?u1 = Some (js ''ABC'')" by (simp add: paginator_eval)
  have e: "decodeURIComponent (js ''ABC'') = Some (js ''ABC'')" by (simp add: paginator_eval)
  have 1: "getNextPage (Some ?h1) = Inr (Some (js ''ABC''))"
    using getNextPage_cursor
      [where h = ?h1 and seg = ?s1 and urlPart = ?u1 and tok = "js ''ABC''" and cursor = "js ''ABC''"]
      a b c d e by blast
  let ?h2 = \<open>js ''<u?page_info=a%2Fb%E2%82%AC&limit=250>; rel="next"''\<close>
  let ?u2 = \<open>js ''<u?page_info=a%2Fb%E2%82%AC&limit=250>''\<close>
  let ?t2 = \<open>js ''a%2Fb%E2%82%AC''\<close>
  have a: "?h2 \<noteq> []" by (simp add: js_def)
  have b: "find is_next (link_parts ?h2) = Some ?h2" by (simp add: paginator_eval)
  have c: "fst (url_rel ?h2) = Some ?u2" by (simp add: paginator_eval)
  have d: "match_page_info ?u2 = Some ?t2" by (simp add: paginator_eval)
  have e: "decodeURIComponent ?t2 = Some [0x61, 0x2F, 0x62, 0x20AC]"
    by (simp add: paginator_eval continuation_octets_numeral)
  have 2: "getNextPage (Some ?h2) = Inr (Some [0x61, 0x2F, 0x62, 0x20AC])"
    using getNextPage_cursor
      [where h = ?h2 and seg = ?h2 and urlPart = ?u2 and tok = ?t2
         and cursor = "[0x61, 0x2F, 0x62, 0x20AC]"]
      a b c d e by blast
  let ?h3 = \<open>js ''<url1>; rel="prev"''\<close>
  have a: "?h3 \<noteq> []" by (simp add: js_def)
  have b: "find is_next (link_parts ?h3) = None" by (simp add: paginator_eval)
  have 3: "getNextPage (Some ?h3) = Inr None"
    using getNextPage_cursor [where h = ?h3] a b by blast
  let ?h4 = \<open>js ''<url2?limit=250>; rel="next"''\<close>
  let ?u4 = \<open>js ''<url2?limit=250>''\<close>
  have a: "?h4 \<noteq> []" by (simp add: js_def)
  have b: "find is_next (link_parts ?h4) = Some ?h4" by (simp add: paginator_eval)
  have c: "fst (url_rel ?h4) = Some ?u4" by (simp add: paginator_eval)
  have d: "match_page_info ?u4 = None" by (simp add: paginator_eval)
  have 4: "getNextPage (Some ?h4) = Inr None"
    using getNextPage_cursor [where h = ?h4 and seg = ?h4 and urlPart = ?u4] a b c d by blast
  from 1 2 3 4 show ?thesis by blast
qed

text \<open>
  Claim C2 as stated fails: the header below is present, its only segment has the
  relation \<^verbatim>\<open>rel="next"\<close> and carries a \<^verbatim>\<open>page_info\<close> parameter, and the call
  neither returns a cursor nor \<^verbatim>\<open>null\<close>: \<^verbatim>\<open>decodeURIComponent\<close> throws.
\<close>

theorem getNextPage_malformed_escape:
  \<open>getNextPage (Some (js ''<u?page_info=%zz>; rel="next"'')) = Inl URIError\<close>
  by (simp add: paginator_eval)

text \<open>
  Claim C9. The loop decides on the first segment whose relation part is
  \<^verbatim>\<open>rel="next"\<close>: when its URL part has no \<^verbatim>\<open>page_info\<close> match the result is
  \<^verbatim>\<open>null\<close>, whatever the later segments \<open>rest\<close> are.
\<close>

theorem getNextPage_first_match:
  "h \<noteq> [] \<and> link_parts h = before @ seg # rest
   \<and> (\<forall>p \<in> set before. \<not> is_next p) \<and> is_next seg
   \<and> fst (url_rel seg) = Some urlPart \<and> match_page_info urlPart = None
   \<longrightarrow> getNextPage (Some h) = Inr None"
proof -
  have "find is_next (before @ seg # rest) = Some seg"
    if "\<forall>p \<in> set before. \<not> is_next p" "is_next seg"
    using that by (induction before) auto
  then show ?thesis
    by (auto simp: getNextPage_def next_in_parts_find cursor_of_def)
qed

theorem getNextPage_first_match_witness:
  \<open>getNextPage (Some (js ''<u0>; rel="prev", <u1>; rel="next", <u2?page_info=ABC>; rel="next"'')) = Inr None
   \<and> is_next (js ''<u2?page_info=ABC>; rel="next"'')
   \<and> getNextPage (Some (js ''<u2?page_info=ABC>; rel="next"'')) = Inr (Some (js ''ABC''))\<close>
proof -
  let ?h = \<open>js ''<u0>; rel="prev", <u1>; rel="next", <u2?page_info=ABC>; rel="next"''\<close>
  let ?b = \<open>[js ''<u0>; rel="prev"'']\<close>
  let ?s = \<open>js ''<u1>; rel="next"''\<close>
  let ?r = \<open>[js ''<u2?page_info=ABC>; rel="next"'']\<close>
  have a: "?h \<noteq> []" by (simp add: js_def)
  have b: "link_parts ?h = ?b @ ?s # ?r" by (simp add: paginator_eval)
  have c: "\<forall>p \<in> set ?b. \<not> is_next p" by (simp add: paginator_eval)
  have d: "is_next ?s" by (simp add: paginator_eval)
  have e: "fst (url_rel ?s) = Some (js ''<u1>'')" by (simp add: paginator_eval)
  have f: "match_page_info (js ''<u1>'') = None" by (simp add: paginator_eval)
  have 1: "getNextPage (Some ?h) = Inr None"
    using getNextPage_first_match [of ?h ?b ?s ?r "js ''<u1>''"] a b c d e f by blast
  have 2: \<open>is_next (js ''<u2?page_info=ABC>; rel="next"'')\<close> by (simp add: paginator_eval)
  have 3: \<open>getNextPage (Some (js ''<u2?page_info=ABC>; rel="next"'')) = Inr (Some (js ''ABC''))\<close>
    by (simp add: paginator_eval)
  from 1 2 3 show ?thesis by blast
qed


section \<open>Properties of the order-source client\<close>

lemma snd_page_loop_cursor:
  "snd (page_loop base net pageInfo acc) = snd (page_loop base net pageInfo' acc)"
  by (cases net) (auto simp: Let_def split: sum.splits prod.splits)

lemma snd_page_loop_advance:
  "advance pages acc = Some acc'
   \<Longrightarrow> snd (page_loop base (map Inr pages @ net) pageInfo acc)
       = snd (page_loop base net pageInfo acc')"
proof (induction pages arbitrary: acc pageInfo)
  case Nil
  then show ?case by simp
next
  case (Cons res pages)
  from Cons.prems obtain acc1 "next" where
    step: "page_step res acc = Inr (acc1, next)" and t: "truthy next"
    and adv: "advance pages acc1 = Some acc'"
    by (auto split: sum.splits prod.splits if_splits)
  have "snd (page_loop base (map Inr (res # pages) @ net) pageInfo acc)
        = snd (page_loop base (map Inr pages @ net) next acc1)"
    using step t by (simp add: Let_def split: prod.splits)
  also have "\<dots> = snd (page_loop base net next acc')"
    using Cons.IH [OF adv] .
  also have "\<dots> = snd (page_loop base net pageInfo acc')"
    by (rule snd_page_loop_cursor)
  finally show ?case .
qed

lemma fetchShopify_configured:
  "shopify_configured env \<Longrightarrow>
   \<exists>base. snd (fetchShopify env net) = snd (page_loop base net None \<lparr>orders = 0, sales = Fin 0\<rparr>)"
  by (auto simp: shopify_configured_def fetchShopify_def truthy_def split: option.splits)

lemma snd_page_loop_not_ok:
  "\<not> res_ok bad \<Longrightarrow>
   snd (page_loop base (Inr bad # net) pageInfo acc)
     = Some (Inl (Error (js ''Shopify API error '' @ digits_of (res_status bad) @ js '': '' @ res_text bad)))"
  by (simp add: page_step_def Let_def)

lemma price_or_zero_value:
  "(case v of None \<Rightarrow> True | Some j \<Rightarrow> can_stringify j) \<Longrightarrow>
   price_or_zero v = Inr (price_value v)"
  by (cases v) (simp_all add: price_or_zero_def price_value_def parseFloat_json_def)

lemma order_price_priced:
  "priced order \<Longrightarrow> order_price order = Inr (price_value (total_price order))"
  by (cases order)
     (simp_all add: priced_def order_price_def get_prop_def total_price_def price_or_zero_value)

lemma order_loop_tally:
  "list_all priced items \<Longrightarrow>
   order_loop items acc
     = Inr \<lparr>orders = orders acc + length items,
            sales = foldl fadd (sales acc) (map (\<lambda>order. price_value (total_price order)) items)\<rparr>"
  by (induction items arbitrary: acc) (simp_all add: order_price_priced)

lemma page_step_order_page:
  assumes "order_page res items"
  shows "page_step res acc
         = then_do (getNextPage (map_option js (res_link res)))
             (\<lambda>pageInfo.
                Inr (\<lparr>orders = orders acc + length items,
                      sales = foldl fadd (sales acc)
                                (map (\<lambda>order. price_value (total_price order)) items)\<rparr>,
                     pageInfo))"
proof -
  from assms obtain data where
    "res_ok res" "res_json res = Inr data"
    "get_prop (js ''orders'') data = Inr (Some (JArr items))"
    "list_all priced items"
    by (auto simp: order_page_def split: sum.splits)
  then show ?thesis
    by (simp add: page_step_def iterate_def order_loop_tally)
qed

lemma advance_order_pages:
  "list_all2 order_page pages itemss \<Longrightarrow> list_all has_next pages \<Longrightarrow>
   advance pages acc
     = Some \<lparr>orders = orders acc + length (concat itemss),
             sales = foldl fadd (sales acc)
                       (map (\<lambda>order. price_value (total_price order)) (concat itemss))\<rparr>"
proof (induction pages itemss arbitrary: acc rule: list_all2_induct)
  case Nil
  then show ?case by simp
next
  case (Cons res pages items itemss)
  from Cons.prems have "has_next res" "list_all has_next pages" by simp_all
  from \<open>has_next res\<close> obtain cursor where
    "getNextPage (map_option js (res_link res)) = Inr (Some cursor)" "cursor \<noteq> []"
    by (auto simp: has_next_def split: sum.splits option.splits)
  then show ?case
    using Cons.IH [OF \<open>list_all has_next pages\<close>] Cons.hyps(1)
    by (simp add: page_step_order_page)
qed

lemma fetchShopify_pages:
  assumes "shopify_configured env"
    and "list_all2 order_page pages itemss"
    and "list_all has_next pages"
    and "order_page final items"
    and "is_last final"
  shows "snd (fetchShopify env (map Inr (pages @ [final]) @ rest))
         = Some (Inr \<lparr>orders = length (concat itemss @ items),
                      sales = foldl fadd (Fin 0)
                                (map (\<lambda>order. price_value (total_price order))
                                   (concat itemss @ items))\<rparr>)"
proof -
  let ?start = "\<lparr>orders = 0, sales = Fin 0\<rparr>"
  let ?price = "\<lambda>order. price_value (total_price order)"
  let ?mid = "\<lparr>orders = length (concat itemss),
               sales = foldl fadd (Fin 0) (map ?price (concat itemss))\<rparr>"
  from fetchShopify_configured [OF assms(1)] obtain base where
    "snd (fetchShopify env (map Inr (pages @ [final]) @ rest))
     = snd (page_loop base (map Inr (pages @ [final]) @ rest) None ?start)"
    by blast
  also have "\<dots> = snd (page_loop base (map Inr pages @ Inr final # rest) None ?start)"
    by simp
  also have "\<dots> = snd (page_loop base (Inr final # rest) None ?mid)"
    using snd_page_loop_advance [of pages ?start ?mid]
      advance_order_pages [OF assms(2,3), of ?start] by simp
  also have "\<dots> = Some (Inr \<lparr>orders = length (concat itemss @ items),
                      sales = foldl fadd (Fin 0) (map ?price (concat itemss @ items))\<rparr>)"
    using assms(5) by (simp add: page_step_order_page [OF assms(4)] is_last_def Let_def)
  finally show ?thesis .
qed

lemma example_pages_result:
  "snd (fetchShopify example_env [Inr page_one, Inr page_two])
     = Some (Inr \<lparr>orders = 3, sales = parseFloat (js ''24.98'')\<rparr>)"
proof -
  let ?o = "order_with_price ''9.99''"
  have a: "shopify_configured example_env"
    by (simp add: example_eval js_def)
  have b: "list_all2 order_page [page_one] [[?o, ?o]]"
    by (simp add: example_eval js_def)
  have c: "list_all has_next [page_one]"
    by (simp add: example_eval paginator_eval)
  have d: "order_page page_two [order_with_price ''5.00'']"
    by (simp add: example_eval js_def)
  have e: "is_last page_two"
    by (simp add: example_eval getNextPage_def)
  have f: "price_value (total_price ?o) = parseFloat (js ''9.99'')"
    "price_value (total_price (order_with_price ''5.00'')) = parseFloat (js ''5.00'')"
    by (simp_all add: example_eval js_def)
  have g: "fadd (fadd (fadd (Fin 0) (parseFloat (js ''9.99''))) (parseFloat (js ''9.99'')))
             (parseFloat (js ''5.00'')) = parseFloat (js ''24.98'')"
    by (simp add: number_eval)
  show ?thesis
    using fetchShopify_pages [OF a b c d e, of "[]"] by (simp add: f g)
qed

lemma example_error_result:
  "snd (fetchShopify example_env [Inr error_page])
     = Some (Inl (Error (js ''Shopify API error 429: Too Many Requests'')))"
  by (simp add: client_eval example_eval js_def digits_of.simps digit_char_def)

text \<open>
  A price that \<^verbatim>\<open>String\<close> cannot convert makes the call throw: an object with a
  property named \<^verbatim>\<open>toString\<close>, also as a later element of an array.
\<close>

lemma fetchShopify_unconvertible_price:
  "snd (fetchShopify example_env
          [Inr (page_with_body (JObj [(js ''orders'',
             JArr [JObj [(js ''total_price'', JObj [(js ''toString'', JStr (js ''x''))])]])]))])
     = Some (Inl TypeError)"
  "snd (fetchShopify example_env
          [Inr (page_with_body (JObj [(js ''orders'',
             JArr [JObj [(js ''total_price'',
                     JArr [JNum (Fin 1), JArr [JObj [(js ''toString'', JNull)]]])]])]))])
     = Some (Inl TypeError)"
  by (simp_all add: client_eval example_eval js_def getNextPage_def)

text \<open>
  Claim C1, as amended. Let the store and the token be set, and let the network
  answer with successful pages: each carries an \<^verbatim>\<open>orders\<close> array of order items
  whose price can be read (no item is \<^verbatim>\<open>null\<close>, and no price holds an object
  with a property named \<^verbatim>\<open>toString\<close>, on which \<^verbatim>\<open>parseFloat\<close> throws), all but
  the last a next cursor. Then \<open>fetchShopify\<close> returns, \<^verbatim>\<open>orders\<close> is the number of
  items of all pages, and \<^verbatim>\<open>sales\<close> is the sum, added up in double arithmetic from
  \<open>0\<close> in page order, of what \<^verbatim>\<open>parseFloat(order.total_price || 0)\<close> returns for
  each item. That term is \<open>0\<close> for a missing, \<^verbatim>\<open>null\<close> or empty price and the
  parsed number for any other string; so a string without a numeric prefix adds
  \<open>NaN\<close>, not \<open>0\<close>.
\<close>

theorem fetchShopify_totals:
  assumes "shopify_configured env"
    and "list_all2 order_page pages itemss"
    and "list_all has_next pages"
    and "order_page final items"
    and "is_last final"
  shows "snd (fetchShopify env (map Inr (pages @ [final]) @ rest))
         = Some (Inr \<lparr>orders = length (concat itemss @ items),
                      sales = foldl fadd (Fin 0)
                                (map (\<lambda>order. price_value (total_price order))
                                   (concat itemss @ items))\<rparr>)
       \<and> (\<forall>order \<in> set (concat itemss @ items).
            order_price order = Inr (price_value (total_price order)))
       \<and> price_or_zero None = Inr (Fin 0)
       \<and> price_or_zero (Some JNull) = Inr (Fin 0)
       \<and> price_or_zero (Some (JStr [])) = Inr (Fin 0)
       \<and> (s \<noteq> [] \<longrightarrow> price_or_zero (Some (JStr s)) = Inr (parseFloat s))"
proof -
  have "list_all priced items"
    using assms(4) by (simp add: order_page_def)
  moreover have "list_all priced (concat itemss)"
    using assms(2)
    by (induction pages itemss rule: list_all2_induct) (simp_all add: order_page_def)
  ultimately have "\<forall>order \<in> set (concat itemss @ items).
      order_price order = Inr (price_value (total_price order))"
    by (auto simp: list_all_iff order_price_priced)
  then show ?thesis
    using fetchShopify_pages [OF assms]
    by (simp add: price_or_zero_def parseFloat_json_def)
qed

theorem fetchShopify_totals_witness:
  "snd (fetchShopify example_env [Inr page_one, Inr page_two])
     = Some (Inr \<lparr>orders = 3, sales = parseFloat (js ''24.98'')\<rparr>)
   \<and> snd (fetchShopify example_env
           [Inr (page_with_body (JObj [(js ''orders'', JArr [JObj [], order_with_price ''5.00''])]))])
     = Some (Inr \<lparr>orders = 2, sales = Fin 5\<rparr>)"
proof -
  let ?o = "order_with_price ''9.99''"
  have a: "shopify_configured example_env"
    by (simp add: example_eval js_def)
  have b: "list_all2 order_page [page_one] [[?o, ?o]]"
    by (simp add: example_eval js_def)
  have c: "list_all has_next [page_one]"
    by (simp add: example_eval paginator_eval)
  have d: "order_page page_two [order_with_price ''5.00'']"
    by (simp add: example_eval js_def)
  have e: "is_last page_two"
    by (simp add: example_eval getNextPage_def)
  have f: "price_value (total_price ?o) = parseFloat (js ''9.99'')"
    "price_value (total_price (order_with_price ''5.00'')) = parseFloat (js ''5.00'')"
    "price_value (total_price (JObj [])) = Fin 0"
    by (simp_all add: example_eval js_def)
  have g: "fadd (fadd (fadd (Fin 0) (parseFloat (js ''9.99''))) (parseFloat (js ''9.99'')))
             (parseFloat (js ''5.00'')) = parseFloat (js ''24.98'')"
    by (simp add: number_eval)
  have 1: "snd (fetchShopify example_env [Inr page_one, Inr page_two])
     = Some (Inr \<lparr>orders = 3, sales = parseFloat (js ''24.98'')\<rparr>)"
    using fetchShopify_totals [OF a b c d e, of "[]"] by (simp add: f g)
  let ?p = "page_with_body (JObj [(js ''orders'', JArr [JObj [], order_with_price ''5.00''])])"
  have d': "order_page ?p [JObj [], order_with_price ''5.00'']"
    by (simp add: example_eval js_def)
  have e': "is_last ?p"
    by (simp add: example_eval getNextPage_def)
  have g': "fadd (Fin 0) (parseFloat (js ''5.00'')) = Fin 5"
    by (simp add: number_eval)
  have 2: "snd (fetchShopify example_env [Inr ?p]) = Some (Inr \<lparr>orders = 2, sales = Fin 5\<rparr>)"
    using fetchShopify_totals [OF a _ _ d' e', of "[]" "[]" "[]"] by (simp add: f g')
  from 1 2 show ?thesis by blast
qed

text \<open>
  Claim C1 as stated fails: one page with one order whose price is the string
  \<^verbatim>\<open>abc\<close> gives the sales \<open>NaN\<close>, where a contribution of \<open>0\<close> would give \<open>0\<close>.
\<close>

theorem fetchShopify_non_numeric_price:
  "snd (fetchShopify example_env
          [Inr (page_with_body (JObj [(js ''orders'', JArr [order_with_price ''abc''])]))])
     = Some (Inr \<lparr>orders = 1, sales = NaN\<rparr>)"
  by (simp add: client_eval example_eval number_eval getNextPage_def)

text \<open>
  Claim C5. When the loop has gone through the responses \<open>pages\<close> and the next
  response is not a success, \<open>fetchShopify\<close> throws an error whose message holds
  the status code and the body of that response; no totals are returned.
\<close>

theorem fetchShopify_http_error:
  assumes "shopify_configured env"
    and "advance pages \<lparr>orders = 0, sales = Fin 0\<rparr> = Some acc"
    and "\<not> res_ok bad"
  shows "snd (fetchShopify env (map Inr pages @ Inr bad # rest))
         = Some (Inl (Error (js ''Shopify API error '' @ digits_of (res_status bad)
                               @ js '': '' @ res_text bad)))"
proof -
  from fetchShopify_configured [OF assms(1)] obtain base where
    "snd (fetchShopify env (map Inr pages @ Inr bad # rest))
     = snd (page_loop base (map Inr pages @ Inr bad # rest) None \<lparr>orders = 0, sales = Fin 0\<rparr>)"
    by blast
  also have "\<dots> = snd (page_loop base (Inr bad # rest) None acc)"
    using snd_page_loop_advance [OF assms(2)] .
  also have "\<dots> = Some (Inl (Error (js ''Shopify API error '' @ digits_of (res_status bad)
                               @ js '': '' @ res_text bad)))"
    using assms(3) by (rule snd_page_loop_not_ok)
  finally show ?thesis .
qed

theorem fetchShopify_http_error_witness:
  "snd (fetchShopify example_env [Inr page_one, Inr error_page, Inr page_two])
     = Some (Inl (Error (js ''Shopify API error 429: Too Many Requests'')))
   \<and> snd (fetchShopify example_env [Inr error_page])
     = Some (Inl (Error (js ''Shopify API error 429: Too Many Requests'')))"
proof -
  have a: "shopify_configured example_env"
    by (simp add: example_eval js_def)
  have b: "list_all2 order_page [page_one] [[order_with_price ''9.99'', order_with_price ''9.99'']]"
    by (simp add: example_eval js_def)
  have c: "list_all has_next [page_one]"
    by (simp add: example_eval paginator_eval)
  have d: "\<not> res_ok error_page" "res_status error_page = 429"
    "res_text error_page = js ''Too Many Requests''"
    by (simp_all add: error_page_def)
  have e: "js ''Shopify API error '' @ digits_of 429 @ js '': '' @ js ''Too Many Requests''
           = js ''Shopify API error 429: Too Many Requests''"
    by (simp add: js_def digits_of.simps digit_char_def)
  have 1: "snd (fetchShopify example_env [Inr page_one, Inr error_page, Inr page_two])
     = Some (Inl (Error (js ''Shopify API error 429: Too Many Requests'')))"
    using fetchShopify_http_error [OF a advance_order_pages [OF b c] d(1), of "[Inr page_two]"]
    by (simp add: d e)
  have 2: "snd (fetchShopify example_env [Inr error_page])
     = Some (Inl (Error (js ''Shopify API error 429: Too Many Requests'')))"
    using fetchShopify_http_error [OF a _ d(1), of "[]" _ "[]"] by (simp add: d e)
  from 1 2 show ?thesis by blast
qed

lemma page_step_not_iterable:
  "res_ok res \<Longrightarrow> res_json res = Inr data \<Longrightarrow> \<not> orders_iterable data \<Longrightarrow>
   page_step res acc = Inl TypeError"
  by (auto simp: page_step_def orders_iterable_def iterate_def get_prop_def
           split: json.splits option.splits sum.splits)

lemma page_step_Inr_iterable:
  "page_step res acc = Inr x \<Longrightarrow> success_iterable res"
  by (auto simp: page_step_def success_iterable_def orders_iterable_def iterate_def then_do_def
           split: if_splits sum.splits option.splits json.splits)

lemma page_step_Inr_next:
  "page_step res acc = Inr (acc', next) \<Longrightarrow> truthy next = has_next res"
  by (auto simp: page_step_def has_next_def then_do_def truthy_def
           split: if_splits sum.splits option.splits)

lemma page_loop_returns:
  "snd (page_loop base net pageInfo acc) = Some (Inr totals) \<Longrightarrow>
   \<exists>pages rest. net = map Inr pages @ rest \<and> pages \<noteq> [] \<and> list_all success_iterable pages
      \<and> list_all has_next (butlast pages) \<and> \<not> has_next (last pages)"
proof (induction net arbitrary: pageInfo acc)
  case Nil
  then show ?case by simp
next
  case (Cons answer net)
  from Cons.prems obtain res where answer: "answer = Inr res"
    by (cases answer) (auto simp: Let_def)
  from Cons.prems answer obtain acc' "next" where step: "page_step res acc = Inr (acc', next)"
    by (cases "page_step res acc") (auto simp: Let_def)
  have it: "success_iterable res" using step by (rule page_step_Inr_iterable)
  have nx: "truthy next = has_next res" using step by (rule page_step_Inr_next)
  show ?case
  proof (cases "truthy next")
    case True
    with Cons.prems answer step
    have "snd (page_loop base net next acc') = Some (Inr totals)"
      by (simp add: Let_def split: prod.splits)
    from Cons.IH [OF this] obtain pages rest where
      "net = map Inr pages @ rest" "pages \<noteq> []" "list_all success_iterable pages"
      "list_all has_next (butlast pages)" "\<not> has_next (last pages)" by blast
    with it answer nx True
    have "answer # net = map Inr (res # pages) @ rest \<and> res # pages \<noteq> []
       \<and> list_all success_iterable (res # pages)
       \<and> list_all has_next (butlast (res # pages)) \<and> \<not> has_next (last (res # pages))"
      by simp
    then show ?thesis by blast
  next
    case False
    with it answer nx
    have "answer # net = map Inr [res] @ net \<and> [res] \<noteq> []
       \<and> list_all success_iterable [res]
       \<and> list_all has_next (butlast [res]) \<and> \<not> has_next (last [res])"
      by simp
    then show ?thesis by blast
  qed
qed

text \<open>
  Claim C10, as amended. When the body of a success response has no \<^verbatim>\<open>orders\<close>
  property, or one that cannot be iterated (\<^verbatim>\<open>null\<close>, a boolean, a number, an
  object), \<open>fetchShopify\<close> throws a TypeError, whatever it has counted so far. And
  when \<open>fetchShopify\<close> returns totals, the responses it has read (\<open>pages\<close>: each
  but the last carries a next cursor) were all successes whose \<^verbatim>\<open>orders\<close> value is
  an array or a string.
\<close>

theorem fetchShopify_orders_not_iterable:
  "(shopify_configured env
     \<and> advance pages \<lparr>orders = 0, sales = Fin 0\<rparr> = Some acc
     \<and> res_ok res \<and> res_json res = Inr data \<and> \<not> orders_iterable data
     \<longrightarrow> snd (fetchShopify env (map Inr pages @ Inr res # rest)) = Some (Inl TypeError))
   \<and> (snd (fetchShopify env net) = Some (Inr totals)
     \<longrightarrow> (\<exists>pages rest. net = map Inr pages @ rest \<and> pages \<noteq> []
            \<and> list_all success_iterable pages
            \<and> list_all has_next (butlast pages) \<and> \<not> has_next (last pages)))"
proof (intro conjI impI)
  assume a: "shopify_configured env
     \<and> advance pages \<lparr>orders = 0, sales = Fin 0\<rparr> = Some acc
     \<and> res_ok res \<and> res_json res = Inr data \<and> \<not> orders_iterable data"
  from fetchShopify_configured [of env] a obtain base where
    "snd (fetchShopify env (map Inr pages @ Inr res # rest))
     = snd (page_loop base (map Inr pages @ Inr res # rest) None \<lparr>orders = 0, sales = Fin 0\<rparr>)"
    by blast
  also have "\<dots> = snd (page_loop base (Inr res # rest) None acc)"
    using snd_page_loop_advance [of pages _ acc] a by blast
  also have "\<dots> = Some (Inl TypeError)"
    using a by (simp add: page_step_not_iterable Let_def)
  finally show "snd (fetchShopify env (map Inr pages @ Inr res # rest)) = Some (Inl TypeError)" .
next
  assume r: "snd (fetchShopify env net) = Some (Inr totals)"
  have "shopify_configured env"
  proof (rule ccontr)
    assume "\<not> shopify_configured env"
    then have "snd (fetchShopify env net)
      = Some (Inl (Error (js ''Missing SHOPIFY_STORE or SHOPIFY_ADMIN_TOKEN environment variables'')))"
      by (auto simp: shopify_configured_def fetchShopify_def truthy_def split: option.splits)
    with r show False by simp
  qed
  from fetchShopify_configured [OF this, of net] r obtain base where
    "snd (page_loop base net None \<lparr>orders = 0, sales = Fin 0\<rparr>) = Some (Inr totals)"
    by auto
  then show "\<exists>pages rest. net = map Inr pages @ rest \<and> pages \<noteq> []
            \<and> list_all success_iterable pages
            \<and> list_all has_next (butlast pages) \<and> \<not> has_next (last pages)"
    by (rule page_loop_returns)
qed

theorem fetchShopify_orders_not_iterable_witness:
  "snd (fetchShopify example_env [Inr page_one, Inr (page_with_body (JObj [])), Inr page_two])
     = Some (Inl TypeError)
   \<and> (\<exists>pages rest. ([Inr page_one, Inr page_two] :: (js_error + response) list)
                         = map Inr pages @ rest \<and> pages \<noteq> []
            \<and> list_all success_iterable pages
            \<and> list_all has_next (butlast pages) \<and> \<not> has_next (last pages))"
proof -
  let ?o = "order_with_price ''9.99''"
  let ?o5 = "order_with_price ''5.00''"
  have a: "shopify_configured example_env"
    by (simp add: example_eval js_def)
  have b: "list_all2 order_page [page_one] [[?o, ?o]]"
    by (simp add: example_eval js_def)
  have c: "list_all has_next [page_one]"
    by (simp add: example_eval paginator_eval)
  have d: "res_ok (page_with_body (JObj []))" "res_json (page_with_body (JObj [])) = Inr (JObj [])"
    "\<not> orders_iterable (JObj [])"
    by (simp_all add: page_with_body_def orders_iterable_def get_prop_def)
  have e: "order_page page_two [?o5]"
    by (simp add: example_eval js_def)
  have f: "is_last page_two"
    by (simp add: example_eval getNextPage_def)
  note adv = advance_order_pages [OF b c, of "\<lparr>orders = 0, sales = Fin 0\<rparr>"]
  have 1: "snd (fetchShopify example_env [Inr page_one, Inr (page_with_body (JObj [])), Inr page_two])
     = Some (Inl TypeError)"
    using fetchShopify_orders_not_iterable
      [where env = example_env and pages = "[page_one]" and res = "page_with_body (JObj [])"
         and data = "JObj []" and rest = "[Inr page_two]", THEN conjunct1, rule_format,
       OF conjI [OF a conjI [OF adv conjI [OF d(1) conjI [OF d(2) d(3)]]]]]
    by simp
  note r = fetchShopify_pages [OF a b c e f, of "[]"]
  have r': "snd (fetchShopify example_env [Inr page_one, Inr page_two])
     = Some (Inr \<lparr>orders = length (concat [[?o, ?o]] @ [?o5]),
                  sales = foldl fadd (Fin 0)
                            (map (\<lambda>order. price_value (total_price order))
                               (concat [[?o, ?o]] @ [?o5]))\<rparr>)"
    using r by simp
  note 2 = fetchShopify_orders_not_iterable
      [where net = "[Inr page_one, Inr page_two]", THEN conjunct2, rule_format, OF r']
  from 1 2 show ?thesis by (rule conjI)
qed

text \<open>
  Claim C10 as stated fails: the body below has no \<^verbatim>\<open>orders\<close> array, and the call
  does not throw. The string is iterated, and each character counts as an order
  of price \<open>0\<close>.
\<close>

theorem fetchShopify_orders_string:
  "snd (fetchShopify example_env [Inr (page_with_body (JObj [(js ''orders'', JStr (js ''ab''))]))])
     = Some (Inr \<lparr>orders = 2, sales = Fin 0\<rparr>)"
  by (simp add: client_eval example_eval round64_def js_def getNextPage_def)

lemma unescape_newlines_Nil: "unescape_newlines s = [] \<longleftrightarrow> s = []"
  by (induction s rule: unescape_newlines.induct) auto

text \<open>
  Claim C7. Without the store or the token \<open>fetchShopify\<close> throws its error and
  sends no request; without the property ID, the client email or the private key
  \<open>fetchGA4\<close> throws its error, logs nothing and does not call the API.
\<close>

theorem missing_credentials_fail_fast:
  "(\<not> shopify_configured env \<longrightarrow>
      fetchShopify env net
        = ([], Some (Inl (Error (js ''Missing SHOPIFY_STORE or SHOPIFY_ADMIN_TOKEN environment variables'')))))
   \<and> (\<not> ga_configured env \<longrightarrow>
      fetchGA4 json_parse runReport env
        = ([], Some (Inl (Error (js ''Missing GA4 service account credentials.'')))))"
  by (auto simp: shopify_configured_def ga_configured_def fetchShopify_def fetchGA4_def
        truthy_def Let_def unescape_newlines_Nil split: option.splits)

theorem missing_credentials_fail_fast_witness:
  "fetchShopify (example_env\<lparr>SHOPIFY_ADMIN_TOKEN := None\<rparr>) [Inr page_one]
     = ([], Some (Inl (Error (js ''Missing SHOPIFY_STORE or SHOPIFY_ADMIN_TOKEN environment variables''))))
   \<and> fetchGA4 (\<lambda>s. None) (\<lambda>r. None) (example_env\<lparr>GA4_PRIVATE_KEY := Some []\<rparr>)
     = ([], Some (Inl (Error (js ''Missing GA4 service account credentials.''))))"
proof -
  have a: "\<not> shopify_configured (example_env\<lparr>SHOPIFY_ADMIN_TOKEN := None\<rparr>)"
    by (simp add: example_eval)
  have b: "\<not> ga_configured (example_env\<lparr>GA4_PRIVATE_KEY := Some []\<rparr>)"
    by (simp add: example_eval)
  show ?thesis
    using missing_credentials_fail_fast
      [of "example_env\<lparr>SHOPIFY_ADMIN_TOKEN := None\<rparr>" "[Inr page_one]"]
      missing_credentials_fail_fast
      [of "example_env\<lparr>GA4_PRIVATE_KEY := Some []\<rparr>" _ "\<lambda>s. None" "\<lambda>r. None"]
      a b by blast
qed

section \<open>Reading back what \<^verbatim>\<open>toFixed\<close> writes\<close>

lemma is_digit_unat: "is_digit c \<longleftrightarrow> 48 \<le> unat c \<and> unat c \<le> 57"
  by (simp add: is_digit_def word_le_nat_alt)

lemma unat_digit_char: "d < 10 \<Longrightarrow> unat (digit_char d) = 48 + d"
  unfolding digit_char_def by (subst unat_of_nat) simp

lemma is_digit_digit_char: "d < 10 \<Longrightarrow> is_digit (digit_char d)"
  by (simp add: is_digit_unat unat_digit_char)

lemma digit_val_digit_char: "d < 10 \<Longrightarrow> digit_val (digit_char d) = d"
  by (simp add: digit_val_def unat_digit_char)

lemma digits_val_append:
  "digits_val (xs @ ys) = digits_val xs * 10 ^ length ys + digits_val ys"
proof (induction ys rule: rev_induct)
  case Nil
  then show ?case by (simp add: digits_val_def)
next
  case (snoc y ys)
  have "digits_val (xs @ ys @ [y]) = 10 * digits_val (xs @ ys) + digit_val y"
    by (simp add: digits_val_def)
  also have "\<dots> = 10 * (digits_val xs * 10 ^ length ys + digits_val ys) + digit_val y"
    by (simp add: snoc.IH)
  also have "\<dots> = digits_val xs * 10 ^ length (ys @ [y]) + digits_val (ys @ [y])"
    by (simp add: digits_val_def algebra_simps)
  finally show ?case by simp
qed

lemma digits_of_all_digits: "list_all is_digit (digits_of n)"
proof (induction n rule: digits_of.induct)
  case (1 n)
  show ?case
  proof (cases "n < 10")
    case True
    then show ?thesis by (subst digits_of.simps) (simp add: is_digit_digit_char)
  next
    case False
    then show ?thesis
      using 1 by (subst digits_of.simps) (simp add: is_digit_digit_char)
  qed
qed

lemma digits_val_digits_of: "digits_val (digits_of n) = n"
proof (induction n rule: digits_of.induct)
  case (1 n)
  show ?case
  proof (cases "n < 10")
    case True
    then show ?thesis
      by (subst digits_of.simps) (simp add: digits_val_def digit_val_digit_char)
  next
    case False
    have "digits_val (digits_of n) = digits_val (digits_of (n div 10) @ [digit_char (n mod 10)])"
      using False by (subst digits_of.simps) simp
    also have "\<dots> = (n div 10) * 10 + n mod 10"
      using 1 False by (simp add: digits_val_append) (simp add: digits_val_def digit_val_digit_char)
    finally show ?thesis by simp
  qed
qed

lemma digits_of_not_Nil: "digits_of n \<noteq> []"
  by (subst digits_of.simps) simp

lemma digits_val_zeros: "digits_val (replicate k 0x30 @ m) = digits_val m"
proof -
  have "digits_val (replicate k 0x30) = 0"
    by (induction k) (simp_all add: digits_val_def digit_val_def)
  then show ?thesis by (simp add: digits_val_append)
qed

lemma round64_neg: "round64 (- x) = neg (round64 x)"
  by (auto simp: round64_def neg_def Let_def)

lemma takeWhile_all: "list_all P xs \<Longrightarrow> takeWhile P xs = xs"
  by (induction xs) auto

lemma dropWhile_all: "list_all P xs \<Longrightarrow> dropWhile P xs = []"
  by (induction xs) auto

lemma takeWhile_stop: "list_all P xs \<Longrightarrow> \<not> P c \<Longrightarrow> takeWhile P (xs @ c # r) = xs"
  by (induction xs) auto

lemma dropWhile_stop: "list_all P xs \<Longrightarrow> \<not> P c \<Longrightarrow> dropWhile P (xs @ c # r) = c # r"
  by (induction xs) auto

lemma not_digit_point: "\<not> is_digit 0x2E"
  by (simp add: is_digit_unat)

lemma digit_not_space: "is_digit c \<Longrightarrow> \<not> is_white_space c"
  by (auto simp: is_digit_unat is_white_space_def)

lemma digit_not_sign: "is_digit c \<Longrightarrow> c \<noteq> 0x2D \<and> c \<noteq> 0x2B \<and> c \<noteq> 0x49"
  by (auto simp: is_digit_unat)

lemma no_Infinity: "is_digit c \<Longrightarrow> strip_prefix (js ''Infinity'') (c # r) = None"
  using digit_not_sign [of c] by (simp add: js_def)

lemma parse_unsigned_integer:
  assumes "list_all is_digit a" and "a \<noteq> []"
  shows "parse_unsigned a = round64 (of_nat (digits_val a))"
proof -
  from assms obtain c r where a: "a = c # r" and c: "is_digit c"
    by (cases a) auto
  have "strip_prefix (js ''Infinity'') a = None"
    unfolding a using c by (rule no_Infinity)
  then show ?thesis
    using assms
    by (simp add: parse_unsigned_def takeWhile_all dropWhile_all after_integer_def pow10_def)
qed

lemma parse_unsigned_fraction:
  assumes "list_all is_digit a" and "a \<noteq> []" and "list_all is_digit b"
  shows "parse_unsigned (a @ 0x2E # b)
         = round64 (of_nat (digits_val (a @ b)) * pow10 (- int (length b)))"
proof -
  from assms obtain c r where a: "a = c # r" and c: "is_digit c"
    by (cases a) auto
  have "strip_prefix (js ''Infinity'') (a @ 0x2E # b) = None"
    unfolding a using c by (simp add: no_Infinity)
  then show ?thesis
    using assms not_digit_point
    by (simp add: parse_unsigned_def takeWhile_stop dropWhile_stop after_integer_def
          takeWhile_all dropWhile_all)
qed

lemma parseFloat_digit: "is_digit c \<Longrightarrow> parseFloat (c # r) = parse_unsigned (c # r)"
  using digit_not_space [of c] digit_not_sign [of c] by (simp add: parseFloat_def)

lemma parseFloat_minus: "parseFloat (0x2D # r) = neg (parse_unsigned r)"
  by (simp add: parseFloat_def is_white_space_def)

text \<open>The digits \<open>toFixed\<close> writes for the scaled integer \<open>n\<close>, read back.\<close>

lemma parse_unsigned_fixed_digits:
  fixes n f :: nat
  defines "m \<equiv> digits_of n"
  defines "z \<equiv> replicate (f + 1 - length m) 0x30 @ m"
  shows "parse_unsigned (if f = 0 then m else take (length z - f) z @ js ''.'' @ drop (length z - f) z)
         = round64 (of_nat n / 10 ^ f)"
proof (cases "f = 0")
  case True
  then show ?thesis
    using parse_unsigned_integer [of m] digits_of_all_digits [of n] digits_of_not_Nil [of n]
    by (simp add: m_def digits_val_digits_of)
next
  case False
  have zero: "is_digit 0x30" by (simp add: is_digit_unat)
  have z_digits: "list_all is_digit z"
    using digits_of_all_digits [of n] zero by (auto simp: z_def m_def list_all_iff)
  have z_len: "f + 1 \<le> length z"
    by (simp add: z_def)
  have z_val: "digits_val z = n"
    by (simp add: z_def m_def digits_val_zeros digits_val_digits_of)
  let ?a = "take (length z - f) z" and ?b = "drop (length z - f) z"
  have a: "list_all is_digit ?a" "?a \<noteq> []"
    using z_digits z_len by (auto simp: list_all_iff dest: in_set_takeD)
  have b: "list_all is_digit ?b" "length ?b = f"
    using z_digits z_len by (auto simp: list_all_iff dest: in_set_dropD)
  have "parse_unsigned (?a @ 0x2E # ?b)
        = round64 (of_nat (digits_val (?a @ ?b)) * pow10 (- int (length ?b)))"
    using a b(1) by (rule parse_unsigned_fraction)
  also have "digits_val (?a @ ?b) = n"
    by (simp add: z_val)
  also have "pow10 (- int (length ?b)) = 1 / 10 ^ f"
    unfolding b(2) using False by (simp add: pow10_def)
  finally show ?thesis
    using False by (simp add: js_def)
qed

lemma head_fixed_digits:
  fixes n f :: nat
  defines "m \<equiv> digits_of n"
  defines "z \<equiv> replicate (f + 1 - length m) 0x30 @ m"
  shows "\<exists>c r. (if f = 0 then m else take (length z - f) z @ js ''.'' @ drop (length z - f) z) = c # r
               \<and> is_digit c"
proof (cases "f = 0")
  case True
  then show ?thesis
    using digits_of_all_digits [of n] digits_of_not_Nil [of n]
    by (cases m) (auto simp: m_def)
next
  case False
  have zero: "is_digit 0x30" by (simp add: is_digit_unat)
  have z_digits: "list_all is_digit z"
    using digits_of_all_digits [of n] zero by (auto simp: z_def m_def list_all_iff)
  have z_len: "f + 1 \<le> length z"
    by (simp add: z_def)
  have a: "list_all is_digit (take (length z - f) z)" "take (length z - f) z \<noteq> []"
    using z_digits z_len by (auto simp: list_all_iff dest: in_set_takeD)
  then show ?thesis
    using False by (cases "take (length z - f) z") auto
qed

lemma parseFloat_toFixed:
  assumes "\<bar>x\<bar> < 10 ^ 21"
  shows "parseFloat (toFixed numberToString f (Fin x))
         = round64 (sgn x * of_int \<lfloor>\<bar>x\<bar> * 10 ^ f + 1 / 2\<rfloor> / 10 ^ f)"
proof -
  define n where "n = nat \<lfloor>\<bar>x\<bar> * 10 ^ f + 1 / 2\<rfloor>"
  define m where "m = digits_of n"
  define z where "z = replicate (f + 1 - length m) 0x30 @ m"
  define body where
    "body = (if f = 0 then m else take (length z - f) z @ js ''.'' @ drop (length z - f) z)"
  have "0 \<le> \<bar>x\<bar> * 10 ^ f + 1 / 2" by simp
  then have "0 \<le> \<lfloor>\<bar>x\<bar> * 10 ^ f + 1 / 2\<rfloor>" by (simp only: zero_le_floor)
  then have n: "(of_int \<lfloor>\<bar>x\<bar> * 10 ^ f + 1 / 2\<rfloor> :: rat) = of_nat n"
    by (simp add: n_def)
  have fixed: "toFixed numberToString f (Fin x) = (if x < 0 then js ''-'' else []) @ body"
    using assms by (simp add: toFixed_def Let_def body_def z_def m_def n_def)
  have parse: "parse_unsigned body = round64 (of_nat n / 10 ^ f)"
    unfolding body_def z_def m_def by (rule parse_unsigned_fixed_digits)
  obtain c r where head: "body = c # r" "is_digit c"
    using head_fixed_digits [of f n] unfolding body_def z_def m_def by blast
  show ?thesis
  proof (cases "x < 0")
    case True
    then have "parseFloat (toFixed numberToString f (Fin x)) = neg (round64 (of_nat n / 10 ^ f))"
      by (simp add: fixed js_def parseFloat_minus parse)
    also have "\<dots> = round64 (- (of_nat n / 10 ^ f))"
      by (simp add: round64_neg)
    also have "- (of_nat n / 10 ^ f) = sgn x * of_int \<lfloor>\<bar>x\<bar> * 10 ^ f + 1 / 2\<rfloor> / 10 ^ f"
      unfolding n using True by simp
    finally show ?thesis .
  next
    case False
    then have p: "parseFloat (toFixed numberToString f (Fin x)) = round64 (of_nat n / 10 ^ f)"
      using head parse by (simp add: fixed parseFloat_digit)
    have s: "sgn x * rat_of_nat n = rat_of_nat n"
    proof (cases "x = 0")
      case True
      then have "n = 0" by (simp add: n_def)
      then show ?thesis by simp
    next
      case False
      with \<open>\<not> x < 0\<close> have "0 < x" by simp
      then show ?thesis by simp
    qed
    from p show ?thesis
      unfolding n s .
  qed
qed

lemma nearest_integer: "\<bar>of_int \<lfloor>y + 1 / 2\<rfloor> - y\<bar> \<le> (1 / 2 :: rat)"
proof -
  have "of_int \<lfloor>y + 1 / 2\<rfloor> \<le> y + 1 / 2 \<and> y + 1 / 2 < of_int \<lfloor>y + 1 / 2\<rfloor> + 1"
    using floor_correct [of "y + 1 / 2"] by simp
  then show ?thesis by linarith
qed

lemma nearest_hundredth:
  "\<bar>sgn x * of_int \<lfloor>\<bar>x\<bar> * 100 + 1 / 2\<rfloor> / 100 - x\<bar> \<le> (1 / 200 :: rat)"
proof -
  define c :: rat where "c = of_int \<lfloor>\<bar>x\<bar> * 100 + 1 / 2\<rfloor>"
  have c: "\<bar>c - \<bar>x\<bar> * 100\<bar> \<le> 1 / 2"
    unfolding c_def by (rule nearest_integer)
  consider "x = 0" | "0 < x" | "x < 0" by linarith
  then have "\<bar>sgn x * c / 100 - x\<bar> \<le> 1 / 200"
  proof cases
    case 1
    then show ?thesis by simp
  next
    case 2
    then have s: "sgn x = 1" "\<bar>x\<bar> = x" by simp_all
    from c have "- (1 / 2) \<le> c - x * 100" "c - x * 100 \<le> 1 / 2"
      unfolding s by linarith+
    then have "- (1 / 200) \<le> c / 100 - x" "c / 100 - x \<le> 1 / 200"
      by linarith+
    then show ?thesis unfolding s by linarith
  next
    case 3
    then have s: "sgn x = - 1" "\<bar>x\<bar> = - x" by simp_all
    from c have "- (1 / 2) \<le> c + x * 100" "c + x * 100 \<le> 1 / 2"
      unfolding s by linarith+
    then have "- (1 / 200) \<le> - c / 100 - x" "- c / 100 - x \<le> 1 / 200"
      by linarith+
    then show ?thesis unfolding s by linarith
  qed
  then show ?thesis unfolding c_def .
qed

lemma parseFloat_of_unsigned:
  assumes "parse_unsigned t = Fin a"
  shows "parseFloat t = Fin a"
proof -
  have inf: "strip_prefix (js ''Infinity'') t = None"
    using assms by (auto simp: parse_unsigned_def split: if_splits)
  obtain fp r where ai: "after_integer (dropWhile is_digit t) = (fp, r)"
    by (cases "after_integer (dropWhile is_digit t)")
  have nonempty: "takeWhile is_digit t \<noteq> [] \<or> fp \<noteq> []"
    using assms inf ai by (auto simp: parse_unsigned_def Let_def split: if_splits)
  have "\<exists>c r'. t = c # r' \<and> (is_digit c \<or> c = 0x2E)"
  proof (cases "takeWhile is_digit t = []")
    case False
    then show ?thesis by (cases t) (auto split: if_splits)
  next
    case True
    with nonempty have "fp \<noteq> []" by simp
    moreover from True have "dropWhile is_digit t = t"
      by (cases t) (auto split: if_splits)
    ultimately show ?thesis
      using ai by (cases t) (auto simp: after_integer_def split: if_splits)
  qed
  then obtain c r' where t: "t = c # r'" and c: "is_digit c \<or> c = 0x2E" by blast
  have "\<not> is_white_space c" "c \<noteq> 0x2D" "c \<noteq> 0x2B"
    using c digit_not_space [of c] digit_not_sign [of c]
    by (auto simp: is_white_space_def)
  then show ?thesis
    using assms by (simp add: parseFloat_def t)
qed

lemma parseFloat_toFixed_large:
  assumes "10 ^ 21 \<le> \<bar>x\<bar>" and "parse_unsigned (numberToString \<bar>x\<bar>) = Fin \<bar>x\<bar>"
  shows "parseFloat (toFixed numberToString f (Fin x)) = Fin x"
proof (cases "x < 0")
  case True
  then show ?thesis
    using assms by (simp add: toFixed_def js_def parseFloat_minus neg_def)
next
  case False
  then show ?thesis
    using assms parseFloat_of_unsigned [OF assms(2)] by (simp add: toFixed_def)
qed

lemma parseFloat_toFixed_not_finite:
  "parseFloat (toFixed numberToString f NaN) = NaN"
  "parseFloat (toFixed numberToString f PosInf) = PosInf"
  "parseFloat (toFixed numberToString f NegInf) = NegInf"
  by (simp_all add: toFixed_def parseFloat_def parse_unsigned_def js_def is_white_space_def
        after_integer_def is_digit_def neg_def)

section \<open>Properties of the aggregator\<close>

text \<open>
  Claim C3. In the record \<^verbatim>\<open>main\<close> composes, \<^verbatim>\<open>orders\<close> is the order count
  unchanged and the four delta fields and the two series fields are \<^verbatim>\<open>null\<close>.
  For finite inputs \<^verbatim>\<open>sessions\<close> is the integer nearest to the analytics
  sessions; \<^verbatim>\<open>sales\<close> is the double nearest to the hundredth nearest to the
  sales sum; \<^verbatim>\<open>conversionRate\<close> is the double nearest to the hundredth nearest
  to the product of the fraction and 100 (a product of doubles). From \<open>10 ^ 21\<close>
  on, \<^verbatim>\<open>toFixed\<close> writes the number as \<^verbatim>\<open>String\<close> does, and the value is kept
  whenever that string reads back as the same number. \<open>NaN\<close> and the infinities
  pass through unchanged.
\<close>

theorem compose_output_fields:
  "out_orders (compose_output numberToString shopify ga) = orders shopify
   \<and> sessionsDelta (compose_output numberToString shopify ga) = None
   \<and> ordersDelta (compose_output numberToString shopify ga) = None
   \<and> salesDelta (compose_output numberToString shopify ga) = None
   \<and> conversionRateDelta (compose_output numberToString shopify ga) = None
   \<and> labels (compose_output numberToString shopify ga) = None
   \<and> series (compose_output numberToString shopify ga) = None
   \<and> (sessions ga = Fin s \<longrightarrow>
        out_sessions (compose_output numberToString shopify ga) = Fin (of_int \<lfloor>s + 1 / 2\<rfloor>)
        \<and> \<bar>of_int \<lfloor>s + 1 / 2\<rfloor> - s\<bar> \<le> 1 / 2)
   \<and> (sales shopify = Fin x \<and> \<bar>x\<bar> < 10 ^ 21 \<longrightarrow>
        out_sales (compose_output numberToString shopify ga)
          = round64 (sgn x * of_int \<lfloor>\<bar>x\<bar> * 100 + 1 / 2\<rfloor> / 100)
        \<and> \<bar>sgn x * of_int \<lfloor>\<bar>x\<bar> * 100 + 1 / 2\<rfloor> / 100 - x\<bar> \<le> 1 / 200)
   \<and> (conversionRate ga = Fin r \<and> round64 (r * 100) = Fin p \<and> \<bar>p\<bar> < 10 ^ 21 \<longrightarrow>
        out_conversionRate (compose_output numberToString shopify ga)
          = round64 (sgn p * of_int \<lfloor>\<bar>p\<bar> * 100 + 1 / 2\<rfloor> / 100)
        \<and> \<bar>sgn p * of_int \<lfloor>\<bar>p\<bar> * 100 + 1 / 2\<rfloor> / 100 - p\<bar> \<le> 1 / 200)
   \<and> (sales shopify = Fin x \<and> 10 ^ 21 \<le> \<bar>x\<bar> \<and> parse_unsigned (numberToString \<bar>x\<bar>) = Fin \<bar>x\<bar> \<longrightarrow>
        out_sales (compose_output numberToString shopify ga) = Fin x)
   \<and> (conversionRate ga = Fin r \<and> round64 (r * 100) = Fin p \<and> 10 ^ 21 \<le> \<bar>p\<bar>
        \<and> parse_unsigned (numberToString \<bar>p\<bar>) = Fin \<bar>p\<bar> \<longrightarrow>
        out_conversionRate (compose_output numberToString shopify ga) = Fin p)
   \<and> ((\<forall>s. sessions ga \<noteq> Fin s) \<longrightarrow>
        out_sessions (compose_output numberToString shopify ga) = sessions ga)
   \<and> ((\<forall>x. sales shopify \<noteq> Fin x) \<longrightarrow>
        out_sales (compose_output numberToString shopify ga) = sales shopify)
   \<and> ((\<forall>p. fmul (conversionRate ga) (Fin 100) \<noteq> Fin p) \<longrightarrow>
        out_conversionRate (compose_output numberToString shopify ga)
          = fmul (conversionRate ga) (Fin 100))"
proof -
  have not_fin: "parseFloat (toFixed numberToString 2 v) = v" if "\<forall>x. v \<noteq> Fin x" for v
    using that by (cases v) (simp_all add: parseFloat_toFixed_not_finite)
  have round: "\<bar>sgn y * of_int \<lfloor>\<bar>y\<bar> * 100 + 1 / 2\<rfloor> / 100 - y\<bar> \<le> (1 / 200 :: rat)" for y
    by (rule nearest_hundredth)
  show ?thesis
    using parseFloat_toFixed [where x = x and f = 2 and numberToString = numberToString]
      parseFloat_toFixed [where x = p and f = 2 and numberToString = numberToString]
      parseFloat_toFixed_large [where x = x and f = 2 and numberToString = numberToString]
      parseFloat_toFixed_large [where x = p and f = 2 and numberToString = numberToString]
      nearest_integer [of s] round [of x] round [of p]
      not_fin [of "sales shopify"] not_fin [of "fmul (conversionRate ga) (Fin 100)"]
    by (cases "sessions ga") (simp_all add: compose_output_def math_round_def)
qed

theorem compose_output_fields_witness:
  "\<forall>numberToString.
     out_sessions (compose_output numberToString example_totals example_analytics) = Fin 500
     \<and> out_orders (compose_output numberToString example_totals example_analytics) = 10
     \<and> out_sales (compose_output numberToString example_totals example_analytics) = Fin 200
     \<and> out_conversionRate (compose_output numberToString example_totals example_analytics)
         = round64 (333 / 100)
     \<and> sessionsDelta (compose_output numberToString example_totals example_analytics) = None
     \<and> series (compose_output numberToString example_totals example_analytics) = None"
proof
  fix numberToString
  let ?out = "compose_output numberToString example_totals example_analytics"
  let ?s = "4401564948312883 / 8796093022208 :: rat"
  let ?x = "7036733680278045 / 35184372088832 :: rat"
  let ?r = "1200839804642069 / 36028797018963968 :: rat"
  let ?p = "7505248779012931 / 2251799813685248 :: rat"
  note fields = compose_output_fields
    [where numberToString = numberToString and shopify = example_totals
       and ga = example_analytics and s = ?s and x = ?x and r = ?r and p = ?p]
  have s: "sessions example_analytics = Fin ?s"
    by (simp add: example_analytics_def number_eval)
  have x: "sales example_totals = Fin ?x"
    by (simp add: example_totals_def number_eval)
  have r: "conversionRate example_analytics = Fin ?r"
    by (simp add: example_analytics_def number_eval)
  have p: "round64 (?r * 100) = Fin ?p"
    by (simp add: number_eval)
  have small: "\<bar>?x\<bar> < 10 ^ 21" "\<bar>?p\<bar> < 10 ^ 21"
    by simp_all
  have 1: "out_sessions ?out = Fin (of_int \<lfloor>?s + 1 / 2\<rfloor>)"
    using fields s by blast
  have 2: "out_sales ?out = round64 (sgn ?x * of_int \<lfloor>\<bar>?x\<bar> * 100 + 1 / 2\<rfloor> / 100)"
    using fields x small(1) by blast
  have 3: "out_conversionRate ?out = round64 (sgn ?p * of_int \<lfloor>\<bar>?p\<bar> * 100 + 1 / 2\<rfloor> / 100)"
    using fields r p small(2) by blast
  have 4: "out_orders ?out = orders example_totals" "sessionsDelta ?out = None" "series ?out = None"
    using fields by blast+
  have e1: "Fin (of_int \<lfloor>?s + 1 / 2\<rfloor>) = Fin 500"
    by (simp add: floor_rat_numeral_div)
  have e2: "round64 (sgn ?x * of_int \<lfloor>\<bar>?x\<bar> * 100 + 1 / 2\<rfloor> / 100) = Fin 200"
    by (simp add: number_eval)
  have e3: "round64 (sgn ?p * of_int \<lfloor>\<bar>?p\<bar> * 100 + 1 / 2\<rfloor> / 100) = round64 (333 / 100)"
    by (simp add: floor_rat_numeral_div)
  show "out_sessions ?out = Fin 500 \<and> out_orders ?out = 10 \<and> out_sales ?out = Fin 200
     \<and> out_conversionRate ?out = round64 (333 / 100)
     \<and> sessionsDelta ?out = None \<and> series ?out = None"
    using 1 2 3 4 e1 e2 e3 by (simp add: example_totals_def)
qed

section \<open>Properties of the analytics-source client\<close>

lemma fetchGA4_configured:
  assumes "GA4_PROPERTY_ID env = Some p" "p \<noteq> []"
    and "GA4_CLIENT_EMAIL env = Some c" "c \<noteq> []"
    and "GA4_PRIVATE_KEY env = Some k" "k \<noteq> []"
  shows "fetchGA4 json_parse runReport env
         = (fst (build_request json_parse p (SEGMENT_GA_FILTER env))
              @ [RunReport c (unescape_newlines k)
                   (snd (build_request json_parse p (SEGMENT_GA_FILTER env)))],
            map_option (\<lambda>answer. then_do answer read_report)
              (runReport (snd (build_request json_parse p (SEGMENT_GA_FILTER env)))))"
  using assms
  by (simp add: fetchGA4_def Let_def unescape_newlines_Nil split: prod.splits)

lemma build_request_invalid:
  "f \<noteq> [] \<Longrightarrow> json_parse f = None \<Longrightarrow>
   build_request json_parse p (Some f)
     = ([Warn (js ''Invalid SEGMENT_GA_FILTER JSON, ignoring'')], plain_request p)"
  by (simp add: build_request_def plain_request_def)

lemma build_request_none:
  "build_request json_parse p None = ([], plain_request p)"
  by (simp add: build_request_def plain_request_def)

lemma read_report_first_row:
  "read_report (Report (Some (Row (Some (MetricValue (Some s) # MetricValue (Some c) # extra)) # others)))
     = Inr \<lparr>sessions = parseFloat s, conversionRate = parseFloat c\<rparr>"
  by (simp add: read_report_def metric_at_def)

lemma read_report_no_rows:
  "read_report (Report None) = Inr \<lparr>sessions = Fin 0, conversionRate = Fin 0\<rparr>"
  "read_report (Report (Some [])) = Inr \<lparr>sessions = Fin 0, conversionRate = Fin 0\<rparr>"
  by (simp_all add: read_report_def)

lemma example_report_result:
  "read_report example_report = Inr \<lparr>sessions = Fin 1000, conversionRate = round64 (25 / 1000)\<rparr>"
  by (simp add: example_report_def read_report_first_row) (simp add: number_eval)

lemma example_env_ga:
  "GA4_PROPERTY_ID example_env = Some (js ''123'')" "js ''123'' \<noteq> []"
  "GA4_CLIENT_EMAIL example_env = Some (js ''a@b'')" "js ''a@b'' \<noteq> []"
  "GA4_PRIVATE_KEY example_env = Some [0x6B, 0x5C, 0x6E]" "[0x6B, 0x5C, 0x6E] \<noteq> ([] :: jsstring)"
  "SEGMENT_GA_FILTER example_env = None"
  by (simp_all add: example_env_def js_def)

lemma example_ga_result:
  "snd (fetchGA4 parse_literal example_api example_env)
     = Some (Inr \<lparr>sessions = Fin 1000, conversionRate = round64 (25 / 1000)\<rparr>)"
  using fetchGA4_configured [OF example_env_ga(1-6), of parse_literal example_api]
  by (simp add: example_api_def example_report_result)

text \<open>
  Claim C6. When the credentials are set and the filter variable holds a
  nonempty string that \<^verbatim>\<open>JSON.parse\<close> rejects, \<open>fetchGA4\<close> logs the warning and
  calls the API with the request that has no dimension filter; its result is that
  of the same run with the filter variable unset, so it returns whenever the
  report is answered and well-formed.
\<close>

theorem fetchGA4_invalid_filter:
  assumes "GA4_PROPERTY_ID env = Some p" "p \<noteq> []"
    and "GA4_CLIENT_EMAIL env = Some c" "c \<noteq> []"
    and "GA4_PRIVATE_KEY env = Some k" "k \<noteq> []"
    and "SEGMENT_GA_FILTER env = Some f" "f \<noteq> []"
    and "json_parse f = None"
  shows "fst (fetchGA4 json_parse runReport env)
           = [Warn (js ''Invalid SEGMENT_GA_FILTER JSON, ignoring''),
              RunReport c (unescape_newlines k) (plain_request p)]
         \<and> dimensionFilter (plain_request p) = None
         \<and> snd (fetchGA4 json_parse runReport env)
           = map_option (\<lambda>answer. then_do answer read_report) (runReport (plain_request p))
         \<and> snd (fetchGA4 json_parse runReport env)
           = snd (fetchGA4 json_parse runReport (env\<lparr>SEGMENT_GA_FILTER := None\<rparr>))
         \<and> (runReport (plain_request p) = Some (Inr report) \<and> read_report report = Inr result
              \<longrightarrow> snd (fetchGA4 json_parse runReport env) = Some (Inr result))"
proof -
  have 1: "fetchGA4 json_parse runReport env
           = ([Warn (js ''Invalid SEGMENT_GA_FILTER JSON, ignoring''),
               RunReport c (unescape_newlines k) (plain_request p)],
              map_option (\<lambda>answer. then_do answer read_report) (runReport (plain_request p)))"
    using fetchGA4_configured [OF assms(1-6), of json_parse runReport]
    by (simp add: assms(7) build_request_invalid [of f json_parse, OF assms(8,9)])
  have 2: "fetchGA4 json_parse runReport (env\<lparr>SEGMENT_GA_FILTER := None\<rparr>)
           = ([RunReport c (unescape_newlines k) (plain_request p)],
              map_option (\<lambda>answer. then_do answer read_report) (runReport (plain_request p)))"
    using fetchGA4_configured [of "env\<lparr>SEGMENT_GA_FILTER := None\<rparr>" p c k json_parse runReport]
      assms(1-6)
    by (simp add: build_request_none)
  show ?thesis
    by (auto simp: 1 2 plain_request_def)
qed

theorem fetchGA4_invalid_filter_witness:
  \<open>fst (fetchGA4 parse_literal example_api (example_env\<lparr>SEGMENT_GA_FILTER := Some (js ''{"a":'')\<rparr>))
     = [Warn (js ''Invalid SEGMENT_GA_FILTER JSON, ignoring''),
        RunReport (js ''a@b'') [0x6B, 0x0A] (plain_request (js ''123''))]
   \<and> snd (fetchGA4 parse_literal example_api (example_env\<lparr>SEGMENT_GA_FILTER := Some (js ''{"a":'')\<rparr>))
     = Some (Inr \<lparr>sessions = Fin 1000, conversionRate = round64 (25 / 1000)\<rparr>)\<close>
proof -
  let ?f = \<open>js ''{"a":''\<close>
  let ?env = "example_env\<lparr>SEGMENT_GA_FILTER := Some ?f\<rparr>"
  have a: "GA4_PROPERTY_ID ?env = Some (js ''123'')" "js ''123'' \<noteq> []"
    "GA4_CLIENT_EMAIL ?env = Some (js ''a@b'')" "js ''a@b'' \<noteq> []"
    "GA4_PRIVATE_KEY ?env = Some [0x6B, 0x5C, 0x6E]" "[0x6B, 0x5C, 0x6E] \<noteq> ([] :: jsstring)"
    "SEGMENT_GA_FILTER ?env = Some ?f" "?f \<noteq> []"
    by (simp_all add: example_env_def js_def)
  have b: "parse_literal ?f = None"
    by (simp add: parse_literal_def js_def)
  have c: "example_api (plain_request (js ''123'')) = Some (Inr example_report)"
    by (simp add: example_api_def)
  have d: "unescape_newlines [0x6B, 0x5C, 0x6E] = [0x6B, 0x0A]"
    by simp
  note th = fetchGA4_invalid_filter
    [where env = ?env and json_parse = parse_literal and runReport = example_api
       and report = example_report
       and result = "\<lparr>sessions = Fin 1000, conversionRate = round64 (25 / 1000)\<rparr>",
     OF a b]
  from th c d example_report_result show ?thesis by simp
qed

text \<open>
  Claim C8. When the API answers with a report, \<open>fetchGA4\<close> returns the two
  metric values of the first row, each read by \<^verbatim>\<open>parseFloat\<close>, whatever the
  later rows are; it returns zeros when the report has no rows.
\<close>

theorem fetchGA4_first_row:
  assumes "GA4_PROPERTY_ID env = Some p" "p \<noteq> []"
    and "GA4_CLIENT_EMAIL env = Some c" "c \<noteq> []"
    and "GA4_PRIVATE_KEY env = Some k" "k \<noteq> []"
    and "runReport (snd (build_request json_parse p (SEGMENT_GA_FILTER env))) = Some (Inr report)"
  shows "(rows report = Some (Row (Some (MetricValue (Some s) # MetricValue (Some r) # extra)) # others)
          \<longrightarrow> snd (fetchGA4 json_parse runReport env)
              = Some (Inr \<lparr>sessions = parseFloat s, conversionRate = parseFloat r\<rparr>))
         \<and> (rows report = None \<or> rows report = Some []
          \<longrightarrow> snd (fetchGA4 json_parse runReport env)
              = Some (Inr \<lparr>sessions = Fin 0, conversionRate = Fin 0\<rparr>))"
  using fetchGA4_configured [OF assms(1-6), of json_parse runReport] assms(7)
    read_report_first_row [of s r extra others] read_report_no_rows
  by (cases report) auto

theorem fetchGA4_first_row_witness:
  "snd (fetchGA4 parse_literal example_api example_env)
     = Some (Inr \<lparr>sessions = Fin 1000, conversionRate = round64 (25 / 1000)\<rparr>)
   \<and> snd (fetchGA4 parse_literal (\<lambda>request. Some (Inr (Report (Some [])))) example_env)
     = Some (Inr \<lparr>sessions = Fin 0, conversionRate = Fin 0\<rparr>)
   \<and> snd (fetchGA4 parse_literal
            (\<lambda>request. Some (Inr (Report (Some
               [Row (Some [MetricValue (Some (js ''1000'')), MetricValue (Some (js ''0.025''))]),
                Row (Some [MetricValue (Some (js ''7'')), MetricValue (Some (js ''0.5''))])]))))
            example_env)
     = Some (Inr \<lparr>sessions = Fin 1000, conversionRate = round64 (25 / 1000)\<rparr>)"
proof -
  have v: "parseFloat (js ''1000'') = Fin 1000" "parseFloat (js ''0.025'') = round64 (25 / 1000)"
    by (simp_all add: number_eval)
  have 1: "snd (fetchGA4 parse_literal example_api example_env)
     = Some (Inr \<lparr>sessions = parseFloat (js ''1000''), conversionRate = parseFloat (js ''0.025'')\<rparr>)"
    using fetchGA4_first_row [OF example_env_ga(1-6), of example_api parse_literal example_report
        "js ''1000''" "js ''0.025''" "[]" "[]"]
    by (simp add: example_api_def example_report_def)
  let ?empty = "\<lambda>request :: report_request. Some (Inr (Report (Some [])) :: js_error + report_response)"
  have 2: "snd (fetchGA4 parse_literal ?empty example_env)
     = Some (Inr \<lparr>sessions = Fin 0, conversionRate = Fin 0\<rparr>)"
    using fetchGA4_first_row [OF example_env_ga(1-6), of ?empty parse_literal "Report (Some [])"]
    by simp
  let ?two = "Report (Some
               [Row (Some [MetricValue (Some (js ''1000'')), MetricValue (Some (js ''0.025''))]),
                Row (Some [MetricValue (Some (js ''7'')), MetricValue (Some (js ''0.5''))])])"
  let ?api = "\<lambda>request :: report_request. Some (Inr ?two :: js_error + report_response)"
  have 3: "snd (fetchGA4 parse_literal ?api example_env)
     = Some (Inr \<lparr>sessions = parseFloat (js ''1000''), conversionRate = parseFloat (js ''0.025'')\<rparr>)"
    using fetchGA4_first_row [OF example_env_ga(1-6), of ?api parse_literal ?two
        "js ''1000''" "js ''0.025''" "[]"
        "[Row (Some [MetricValue (Some (js ''7'')), MetricValue (Some (js ''0.5''))])]"]
    by simp
  from 1 2 3 show ?thesis by (simp add: v)
qed

section \<open>Failure of a run\<close>

lemma promise_all_rejects:
  "p = Some (Inl e) \<or> q = Some (Inl e) \<Longrightarrow>
   \<exists>err. promise_all first_wins p q = Some (Inl err) \<and> (p = Some (Inl err) \<or> q = Some (Inl err))"
  by (auto simp: promise_all_def split: option.splits sum.splits)

lemma promise_all_fulfils:
  "promise_all first_wins p q = Some (Inr (x, y)) \<longleftrightarrow> p = Some (Inr x) \<and> q = Some (Inr y)"
  by (auto simp: promise_all_def split: option.splits sum.splits)

text \<open>
  Claim C4. When the order fetch or the analytics fetch rejects, the run prints
  one of the rejections, exits with status 1 and does not write the output file.
  The file is written only when both fetches have succeeded, and it is written
  when they have and the file system does not fail.
\<close>

theorem main_all_or_nothing:
  "(shopify_result = Some (Inl e) \<or> ga_result = Some (Inl e) \<longrightarrow>
      (\<exists>err. main numberToString shopify_first fs_error shopify_result ga_result
               = Some \<lparr>written = None, console_log = [], console_error = [err], exit_status = 1\<rparr>
             \<and> (shopify_result = Some (Inl err) \<or> ga_result = Some (Inl err))))
   \<and> (main numberToString shopify_first fs_error shopify_result ga_result = Some state
        \<and> written state \<noteq> None \<longrightarrow>
      (\<exists>shopify ga. shopify_result = Some (Inr shopify) \<and> ga_result = Some (Inr ga)
         \<and> written state = Some (compose_output numberToString shopify ga)
         \<and> exit_status state = 0))
   \<and> (shopify_result = Some (Inr shopify) \<and> ga_result = Some (Inr ga) \<and> fs_error = None \<longrightarrow>
      main numberToString shopify_first fs_error shopify_result ga_result
        = Some \<lparr>written = Some (compose_output numberToString shopify ga),
                console_log = [js ''Updated''], console_error = [], exit_status = 0\<rparr>)"
proof (intro conjI impI)
  assume "shopify_result = Some (Inl e) \<or> ga_result = Some (Inl e)"
  from promise_all_rejects [OF this, of shopify_first] obtain err where
    "promise_all shopify_first shopify_result ga_result = Some (Inl err)"
    "shopify_result = Some (Inl err) \<or> ga_result = Some (Inl err)" by blast
  then show "\<exists>err. main numberToString shopify_first fs_error shopify_result ga_result
               = Some \<lparr>written = None, console_log = [], console_error = [err], exit_status = 1\<rparr>
             \<and> (shopify_result = Some (Inl err) \<or> ga_result = Some (Inl err))"
    by (auto simp: main_def)
next
  assume a: "main numberToString shopify_first fs_error shopify_result ga_result = Some state
        \<and> written state \<noteq> None"
  then obtain x y where "promise_all shopify_first shopify_result ga_result = Some (Inr (x, y))"
    and st: "state = \<lparr>written = Some (compose_output numberToString x y),
                console_log = [js ''Updated''], console_error = [], exit_status = 0\<rparr>"
    by (auto simp: main_def split: option.splits sum.splits)
  then have "shopify_result = Some (Inr x) \<and> ga_result = Some (Inr y)"
    by (simp add: promise_all_fulfils)
  with st show "\<exists>shopify ga. shopify_result = Some (Inr shopify) \<and> ga_result = Some (Inr ga)
         \<and> written state = Some (compose_output numberToString shopify ga)
         \<and> exit_status state = 0"
    by simp
next
  assume "shopify_result = Some (Inr shopify) \<and> ga_result = Some (Inr ga) \<and> fs_error = None"
  then show "main numberToString shopify_first fs_error shopify_result ga_result
        = Some \<lparr>written = Some (compose_output numberToString shopify ga),
                console_log = [js ''Updated''], console_error = [], exit_status = 0\<rparr>"
    by (simp add: main_def promise_all_def)
qed

theorem main_all_or_nothing_witness:
  "\<forall>numberToString.
     run numberToString parse_literal True None [Inr error_page] example_api example_env
       = Some \<lparr>written = None, console_log = [],
               console_error = [Error (js ''Shopify API error 429: Too Many Requests'')],
               exit_status = 1\<rparr>
     \<and> run numberToString parse_literal True None [Inr page_one, Inr page_two] example_api example_env
       = Some \<lparr>written = Some (compose_output numberToString
                                 \<lparr>orders = 3, sales = parseFloat (js ''24.98'')\<rparr>
                                 \<lparr>sessions = Fin 1000, conversionRate = round64 (25 / 1000)\<rparr>),
               console_log = [js ''Updated''], console_error = [], exit_status = 0\<rparr>"
proof
  fix numberToString
  let ?e = "Error (js ''Shopify API error 429: Too Many Requests'')"
  let ?s = "\<lparr>orders = 3, sales = parseFloat (js ''24.98'')\<rparr>"
  let ?g = "\<lparr>sessions = Fin 1000, conversionRate = round64 (25 / 1000)\<rparr>"
  note fail = main_all_or_nothing
    [where numberToString = numberToString and shopify_first = True and fs_error = None
       and shopify_result = "Some (Inl ?e)" and ga_result = "Some (Inr ?g)" and e = ?e,
     THEN conjunct1]
  note ok = main_all_or_nothing
    [where numberToString = numberToString and shopify_first = True and fs_error = None
       and shopify_result = "Some (Inr ?s)" and ga_result = "Some (Inr ?g)"
       and shopify = ?s and ga = ?g,
     THEN conjunct2, THEN conjunct2]
  have 1: "main numberToString True None (Some (Inl ?e)) (Some (Inr ?g))
           = Some \<lparr>written = None, console_log = [], console_error = [?e], exit_status = 1\<rparr>"
    using fail by auto
  have 2: "main numberToString True None (Some (Inr ?s)) (Some (Inr ?g))
           = Some \<lparr>written = Some (compose_output numberToString ?s ?g),
                console_log = [js ''Updated''], console_error = [], exit_status = 0\<rparr>"
    using ok by simp
  show "run numberToString parse_literal True None [Inr error_page] example_api example_env
       = Some \<lparr>written = None, console_log = [], console_error = [?e], exit_status = 1\<rparr>
     \<and> run numberToString parse_literal True None [Inr page_one, Inr page_two] example_api example_env
       = Some \<lparr>written = Some (compose_output numberToString ?s ?g),
               console_log = [js ''Updated''], console_error = [], exit_status = 0\<rparr>"
    using 1 2 by (simp add: run_def example_error_result example_pages_result example_ga_result)
qed


end
